theory Spec2Isabelle
  imports Complex_Main "HOL-Library.AList"
begin

section \<open>Python values used by \<^verbatim>\<open>wbi_login.py\<close>\<close>

text \<open>
  The module \<^verbatim>\<open>wikibaseintegrator/wbi_login.py\<close> defines the class \<^verbatim>\<open>Login\<close>.
  Everything it computes on is a decoded JSON document, a text string, a byte string,
  a clock reading or an attribute of the \<^verbatim>\<open>Login\<close> object.

  Modelling decisions:
  \<^item> A decoded JSON document is a \<open>json\<close> value. A JSON object is an association list
    whose keys are distinct, read with \<open>map_of\<close>, as a Python \<^verbatim>\<open>dict\<close> is read.
  \<^item> Text and byte strings are both lists of \<open>char\<close>; where the source distinguishes
    \<^verbatim>\<open>str\<close> from \<^verbatim>\<open>bytes\<close> the model tags the value (\<open>pystring\<close>).
  \<^item> Clock readings (\<^verbatim>\<open>time.time()\<close>) and the renew period are real numbers; the
    concrete readings used below are small integers, which Python's floats represent
    exactly.
  \<^item> An exception is a value of type \<open>error\<close>; an operation that may raise returns
    \<open>error + 'a\<close> together with the object and the environment as they are at the
    moment of the raise, because a Python exception does not undo assignments that
    were already made.
\<close>

datatype json =
    JNull
  | JBool bool
  | JInt int
  | JFloat real
  | JStr string
  | JArr "json list"
  | JObj "(string \<times> json) list"

text \<open>\<^verbatim>\<open>'template'.format(args)\<close> and the arguments of \<^verbatim>\<open>print\<close>, kept unrendered.\<close>

datatype printed =
    Print "json list"
  | Format string "json list"

datatype error =
    TransportError
  | JSONDecodeError
  | KeyError json
  | IndexError
  | TypeError
  | AttributeError string
  | EOFError
  | HandshakeError
  | LoginError printed

text \<open>
  \<open>TransportError\<close> stands for whatever \<^verbatim>\<open>requests\<close> raises when a request cannot be
  carried out, \<open>JSONDecodeError\<close> for what \<^verbatim>\<open>response.json()\<close> raises on a body that
  is not JSON, \<open>HandshakeError\<close> for whatever the \<^verbatim>\<open>mwoauth\<close> handshaker raises.
  \<open>LoginError\<close> is the module's own exception class; it carries its message.
\<close>

text \<open>Python truth value of a decoded JSON value (\<^verbatim>\<open>if x\<close>, \<^verbatim>\<open>not x\<close>).\<close>

fun truthy :: "json \<Rightarrow> bool" where
  "truthy JNull = False"
| "truthy (JBool b) = b"
| "truthy (JInt i) = (i \<noteq> 0)"
| "truthy (JFloat x) = (x \<noteq> 0)"
| "truthy (JStr s) = (s \<noteq> [])"
| "truthy (JArr xs) = (xs \<noteq> [])"
| "truthy (JObj kvs) = (kvs \<noteq> [])"

text \<open>Truth value of an optional string argument (\<^verbatim>\<open>None\<close> and \<^verbatim>\<open>''\<close> are false).\<close>

fun truthy_str :: "string option \<Rightarrow> bool" where
  "truthy_str None = False"
| "truthy_str (Some s) = (s \<noteq> [])"

text \<open>Python sequence indexing \<^verbatim>\<open>xs[i]\<close>: negative indices count from the end.\<close>

definition py_index :: "'a list \<Rightarrow> int \<Rightarrow> error + 'a" where
  "py_index xs i =
     (if 0 \<le> i \<and> i < int (length xs) then Inr (xs ! nat i)
      else if i < 0 \<and> - int (length xs) \<le> i then Inr (xs ! nat (int (length xs) + i))
      else Inl IndexError)"

text \<open>The subscript \<^verbatim>\<open>container[key]\<close> on decoded JSON values.\<close>

fun subscript :: "json \<Rightarrow> json \<Rightarrow> error + json" where
  "subscript (JObj kvs) (JStr k) =
     (case map_of kvs k of None \<Rightarrow> Inl (KeyError (JStr k)) | Some v \<Rightarrow> Inr v)"
| "subscript (JObj kvs) (JArr ks) = Inl TypeError"
| "subscript (JObj kvs) (JObj ks) = Inl TypeError"
| "subscript (JObj kvs) k = Inl (KeyError k)"
| "subscript (JArr xs) (JInt i) = py_index xs i"
| "subscript (JArr xs) (JBool b) = py_index xs (if b then 1 else 0)"
| "subscript (JArr xs) k = Inl TypeError"
| "subscript (JStr s) (JInt i) =
     (case py_index s i of Inl e \<Rightarrow> Inl e | Inr c \<Rightarrow> Inr (JStr [c]))"
| "subscript (JStr s) (JBool b) =
     (case py_index s (if b then 1 else 0) of Inl e \<Rightarrow> Inl e | Inr c \<Rightarrow> Inr (JStr [c]))"
| "subscript (JStr s) k = Inl TypeError"
| "subscript j k = Inl TypeError"

definition getitem :: "json \<Rightarrow> string \<Rightarrow> error + json" where
  "getitem j k = subscript j (JStr k)"

text \<open>A chain of subscripts with literal keys, \<^verbatim>\<open>j['a']['b']['c']\<close>.\<close>

fun getpath :: "json \<Rightarrow> string list \<Rightarrow> error + json" where
  "getpath j [] = Inr j"
| "getpath j (k # ks) = (case getitem j k of Inl e \<Rightarrow> Inl e | Inr v \<Rightarrow> getpath v ks)"

text \<open>Substring test \<^verbatim>\<open>needle in hay\<close> on strings.\<close>

primrec str_contains :: "string \<Rightarrow> string \<Rightarrow> bool" where
  "str_contains [] needle = (needle = [])"
| "str_contains (c # cs) needle =
     (take (length needle) (c # cs) = needle \<or> str_contains cs needle)"

text \<open>The membership test \<^verbatim>\<open>'key' in x\<close> on a decoded JSON value.\<close>

fun py_in :: "string \<Rightarrow> json \<Rightarrow> error + bool" where
  "py_in k (JObj kvs) = Inr (k \<in> set (map fst kvs))"
| "py_in k (JArr xs) = Inr (JStr k \<in> set xs)"
| "py_in k (JStr s) = Inr (str_contains s k)"
| "py_in k j = Inl TypeError"

text \<open>
  \<^verbatim>\<open>str.casefold()\<close> follows the Unicode tables of the interpreter (it lower-cases,
  and may lengthen a string). The model does not define it: it is a function supplied by
  the environment (the field \<open>str_casefold\<close> of \<open>world\<close> below), and every property
  stated for all environments holds whatever that function is. On a string of ASCII
  characters \<^verbatim>\<open>str.casefold()\<close> lower-cases the letters A to Z and changes nothing else;
  \<open>ascii_casefold\<close> does that, and serves only in the concrete environments further
  down, whose strings are all ASCII.
\<close>

definition ascii_casefold_char :: "char \<Rightarrow> char" where
  "ascii_casefold_char c =
     (let n = (of_char c :: nat) in if 65 \<le> n \<and> n \<le> 90 then char_of (n + 32) else c)"

definition ascii_casefold :: "string \<Rightarrow> string" where
  "ascii_casefold s = map ascii_casefold_char s"

text \<open>A value that is either text (\<^verbatim>\<open>str\<close>) or bytes (\<^verbatim>\<open>bytes\<close>).\<close>

datatype pystring = Str string | Bytes string

text \<open>\<^verbatim>\<open>x.split(sep)\<close> for a one-character separator: never an empty list.\<close>

fun split_on :: "char \<Rightarrow> string \<Rightarrow> string list" where
  "split_on sep [] = [[]]"
| "split_on sep (c # cs) =
     (if c = sep then [] # split_on sep cs
      else (case split_on sep cs of
              [] \<Rightarrow> [[c]]
            | p # ps \<Rightarrow> (c # p) # ps))"

section \<open>The collaborators: transport, handshake provider, clock, console, configuration\<close>

datatype http_method = GET | POST

record oauth1 =
  client_key :: string
  client_secret :: string
  resource_owner_key :: string
  resource_owner_secret :: string

text \<open>\<^verbatim>\<open>requests.Session\<close>: the headers, the cookie jar and the attached signer.\<close>

record session =
  headers :: "(string \<times> string) list"
  cookies :: "(string \<times> string) list"
  auth :: "oauth1 option"

record request =
  req_method :: http_method
  req_url :: string
  req_fields :: "(string \<times> json) list"
  req_headers :: "(string \<times> string) list"
  req_cookies :: "(string \<times> string) list"
  req_auth :: "oauth1 option"

text \<open>
  What comes back from one HTTP request: the request raises, or a response arrives with
  the cookies it sets and a body that decodes to JSON or does not (\<open>None\<close>).
\<close>

datatype http_reply =
    ConnectionFailure
  | Response "(string \<times> string) list" "json option"

text \<open>Key and secret of an OAuth request token, access token or consumer token.\<close>

record token =
  tok_key :: string
  tok_secret :: string

text \<open>\<^verbatim>\<open>mwoauth.Handshaker\<close> as constructed by \<^verbatim>\<open>Login.__init__\<close>.\<close>

record handshaker =
  hs_index_url :: string
  hs_consumer :: token
  hs_callback :: string
  hs_user_agent :: string

text \<open>
  The environment of a \<^verbatim>\<open>Login\<close> object. The remote parties are deterministic but
  arbitrary: \<open>clock\<close> gives the successive readings of \<^verbatim>\<open>time.time()\<close>, \<open>server\<close> the
  reply to the n-th HTTP request of the process, \<open>provider_initiate\<close> and
  \<open>provider_complete\<close> the outcome of the n-th call of \<^verbatim>\<open>Handshaker.initiate\<close> and
  \<^verbatim>\<open>Handshaker.complete\<close> (\<open>None\<close>: the call raises). The lists record what the
  program did: requests sent, handshake calls made, lines printed, URLs opened in the
  browser. \<open>stdin\<close> holds the lines \<^verbatim>\<open>input()\<close> will read. The three \<open>config_\<close>
  fields are the entries of the process-wide dictionary \<^verbatim>\<open>wbi_config.config\<close> that the
  module reads; \<open>requests_default_headers\<close> are the headers of a fresh session;
  \<open>str_casefold\<close> is the interpreter's \<^verbatim>\<open>str.casefold\<close>.
\<close>

record world =
  clock :: "nat \<Rightarrow> real"
  ticks :: nat
  server :: "nat \<Rightarrow> http_reply"
  sent :: "request list"
  provider_initiate :: "nat \<Rightarrow> (string \<times> token) option"
  initiated :: "(handshaker \<times> string) list"
  provider_complete :: "nat \<Rightarrow> token option"
  completed :: "(handshaker \<times> token \<times> string) list"
  stdin :: "string list"
  stdout :: "printed list"
  browser :: "string list"
  config_MEDIAWIKI_API_URL :: string
  config_MEDIAWIKI_INDEX_URL :: string
  config_USER_AGENT_DEFAULT :: string
  requests_default_headers :: "(string \<times> string) list"
  str_casefold :: "string \<Rightarrow> string"

definition time_time :: "world \<Rightarrow> real \<times> world" where
  "time_time w = (clock w (ticks w), w\<lparr>ticks := Suc (ticks w)\<rparr>)"

definition print :: "printed \<Rightarrow> world \<Rightarrow> world" where
  "print p w = w\<lparr>stdout := stdout w @ [p]\<rparr>"

definition input :: "world \<Rightarrow> (error + string) \<times> world" where
  "input w =
     (case stdin w of
        [] \<Rightarrow> (Inl EOFError, w)
      | l # ls \<Rightarrow> (Inr l, w\<lparr>stdin := ls\<rparr>))"

definition webbrowser_open :: "string \<Rightarrow> world \<Rightarrow> world" where
  "webbrowser_open url w = w\<lparr>browser := browser w @ [url]\<rparr>"

definition merge_cookies :: "(string \<times> string) list \<Rightarrow> (string \<times> string) list \<Rightarrow> (string \<times> string) list" where
  "merge_cookies jar new = fold (\<lambda>(k, v). AList.update k v) new jar"

text \<open>
  \<^verbatim>\<open>session.get(url, params=fields)\<close> and \<^verbatim>\<open>session.post(url, data=fields)\<close>: the request
  is recorded, the reply is the server's next one, the cookies it sets go into the jar.
  The value of a form field is whatever Python value the source puts there.
\<close>

definition session_request ::
  "http_method \<Rightarrow> session \<Rightarrow> string \<Rightarrow> (string \<times> json) list \<Rightarrow> world
     \<Rightarrow> (error + json option) \<times> session \<times> world" where
  "session_request m s url flds w =
     (let req = \<lparr>req_method = m, req_url = url, req_fields = flds,
                 req_headers = headers s, req_cookies = cookies s, req_auth = auth s\<rparr>;
          w' = w\<lparr>sent := sent w @ [req]\<rparr>
      in case server w (length (sent w)) of
           ConnectionFailure \<Rightarrow> (Inl TransportError, s, w')
         | Response set_cookies body \<Rightarrow>
             (Inr body, s\<lparr>cookies := merge_cookies (cookies s) set_cookies\<rparr>, w'))"

text \<open>\<^verbatim>\<open>response.json()\<close>.\<close>

definition response_json :: "json option \<Rightarrow> error + json" where
  "response_json body = (case body of None \<Rightarrow> Inl JSONDecodeError | Some j \<Rightarrow> Inr j)"

section \<open>The \<^verbatim>\<open>Login\<close> object\<close>

text \<open>
  The attributes of \<^verbatim>\<open>self\<close>. The session \<^verbatim>\<open>self.s\<close> is the field \<open>sess\<close>. The four
  attributes that only the OAuth branch of \<^verbatim>\<open>__init__\<close> assigns are optional: \<open>None\<close>
  means the attribute does not exist, and reading it raises \<^verbatim>\<open>AttributeError\<close>.
\<close>

record login =
  mediawiki_api_url :: string
  mediawiki_index_url :: string
  sess :: session
  edit_token :: json
  instantiation_time :: real
  token_renew_period :: real
  consumer_key :: "string option"
  consumer_secret :: "string option"
  response_qs :: "pystring option"
  callback_url :: string
  user_agent :: string
  consumer_token :: "token option"
  handshaker :: "handshaker option"
  redirect :: "string option"
  request_token :: "token option"

text \<open>The query of \<^verbatim>\<open>generate_edit_credentials\<close> (lines 156 to 160).\<close>

definition params_edit :: "(string \<times> json) list" where
  "params_edit = [(''action'', JStr ''query''), (''meta'', JStr ''tokens''), (''format'', JStr ''json'')]"

text \<open>
  \<^verbatim>\<open>Login.generate_edit_credentials\<close> (lines 151 to 164): one GET request; the
  \<^verbatim>\<open>csrftoken\<close> of the answer is assigned to \<^verbatim>\<open>self.edit_token\<close>; the cookie jar is
  returned. No other attribute is assigned.
\<close>

definition generate_edit_credentials ::
  "login \<Rightarrow> world \<Rightarrow> (error + (string \<times> string) list) \<times> login \<times> world" where
  "generate_edit_credentials self w =
     (case session_request GET (sess self) (mediawiki_api_url self) params_edit w of
        (Inl e, s', w') \<Rightarrow> (Inl e, self\<lparr>sess := s'\<rparr>, w')
      | (Inr response, s', w') \<Rightarrow>
          (case response_json response of
             Inl e \<Rightarrow> (Inl e, self\<lparr>sess := s'\<rparr>, w')
           | Inr j \<Rightarrow>
               (case getpath j [''query'', ''tokens'', ''csrftoken''] of
                  Inl e \<Rightarrow> (Inl e, self\<lparr>sess := s'\<rparr>, w')
                | Inr tok \<Rightarrow>
                    (Inr (cookies s'), self\<lparr>sess := s', edit_token := tok\<rparr>, w'))))"

text \<open>
  \<^verbatim>\<open>Login.get_edit_cookie\<close> (lines 166 to 175). The clock is read once for the test
  and once more after a refresh.
\<close>

definition get_edit_cookie ::
  "login \<Rightarrow> world \<Rightarrow> (error + (string \<times> string) list) \<times> login \<times> world" where
  "get_edit_cookie self w =
     (case time_time w of (now, w1) \<Rightarrow>
        if now - instantiation_time self > token_renew_period self then
          (case generate_edit_credentials self w1 of
             (Inl e, self', w2) \<Rightarrow> (Inl e, self', w2)
           | (Inr _, self', w2) \<Rightarrow>
               (case time_time w2 of (t, w3) \<Rightarrow>
                  (Inr (cookies (sess self')), self'\<lparr>instantiation_time := t\<rparr>, w3)))
        else (Inr (cookies (sess self)), self, w1))"

text \<open>
  \<^verbatim>\<open>Login.get_edit_token\<close> (lines 177 to 186). Python's \<^verbatim>\<open>or\<close> evaluates its right
  operand only when the left one is false, so the clock is not read for the test when
  \<^verbatim>\<open>self.edit_token\<close> is falsy.
\<close>

definition get_edit_token :: "login \<Rightarrow> world \<Rightarrow> (error + json) \<times> login \<times> world" where
  "get_edit_token self w =
     (case (if \<not> truthy (edit_token self) then (True, w)
            else (case time_time w of (now, w1) \<Rightarrow>
                    (now - instantiation_time self > token_renew_period self, w1))) of
        (stale, w1) \<Rightarrow>
          if stale then
            (case generate_edit_credentials self w1 of
               (Inl e, self', w2) \<Rightarrow> (Inl e, self', w2)
             | (Inr _, self', w2) \<Rightarrow>
                 (case time_time w2 of (t, w3) \<Rightarrow>
                    (Inr (edit_token self'), self'\<lparr>instantiation_time := t\<rparr>, w3)))
          else (Inr (edit_token self), self, w1))"

text \<open>\<^verbatim>\<open>Login.get_session\<close> (lines 188 to 193).\<close>

definition get_session :: "login \<Rightarrow> session" where
  "get_session self = sess self"

section \<open>Construction: \<^verbatim>\<open>Login.__init__\<close>\<close>

text \<open>
  \<^verbatim>\<open>__init__\<close> carries the decorator \<^verbatim>\<open>@wbi_backoff()\<close>, whose module is not part of the
  sources at hand. \<open>Login_init\<close> below is one run of the body of \<^verbatim>\<open>__init__\<close>; an
  exception raised by the body is the result \<open>Inl\<close>, and then no object exists.
\<close>

definition opt_json :: "string option \<Rightarrow> json" where
  "opt_json x = (case x of None \<Rightarrow> JNull | Some s \<Rightarrow> JStr s)"

text \<open>The message templates of lines 118, 123 and 140; \<open>CHR 0x27\<close> is the single quote.\<close>

definition msg_login_failed_code :: string where
  "msg_login_failed_code = ''Login failed ({}). Message: '' @ [CHR 0x27] @ ''{}'' @ [CHR 0x27]"

definition msg_login_failed_reason :: string where
  "msg_login_failed_reason = ''Login failed. Reason: '' @ [CHR 0x27] @ ''{}'' @ [CHR 0x27]"

text \<open>
  Lines 64 to 70: the user agent of the new object, and the update of the shared
  configuration entry \<^verbatim>\<open>config['USER_AGENT_DEFAULT']\<close>.
\<close>

definition init_user_agent :: "string option \<Rightarrow> string option \<Rightarrow> world \<Rightarrow> string \<times> world" where
  "init_user_agent user ua_arg w =
     (if truthy_str ua_arg then (the ua_arg, w)
      else
        (case (if truthy_str user \<and>
                  \<not> str_contains (str_casefold w (config_USER_AGENT_DEFAULT w))
                       (str_casefold w (the user))
               then w\<lparr>config_USER_AGENT_DEFAULT :=
                        config_USER_AGENT_DEFAULT w @ '' (User:'' @ the user @ '')''\<rparr>
               else w) of
           w' \<Rightarrow> (config_USER_AGENT_DEFAULT w', w')))"

text \<open>Lines 75 to 87: the OAuth branch, step 1 of the handshake.\<close>

definition init_oauth :: "login \<Rightarrow> world \<Rightarrow> (error + login) \<times> world" where
  "init_oauth self w =
     (let ct = \<lparr>tok_key = the (consumer_key self), tok_secret = the (consumer_secret self)\<rparr>;
          hs = \<lparr>hs_index_url = mediawiki_index_url self, hs_consumer = ct,
                hs_callback = callback_url self, hs_user_agent = user_agent self\<rparr>;
          w' = w\<lparr>initiated := initiated w @ [(hs, callback_url self)]\<rparr>
      in case provider_initiate w (length (initiated w)) of
           None \<Rightarrow> (Inl HandshakeError, w')
         | Some (r, rt) \<Rightarrow>
             (Inr (self\<lparr>consumer_token := Some ct, handshaker := Some hs,
                        redirect := Some r, request_token := Some rt\<rparr>), w'))"

text \<open>Lines 90 to 98: the login token.\<close>

definition params_login :: "(string \<times> json) list" where
  "params_login = [(''action'', JStr ''query''), (''meta'', JStr ''tokens''),
                   (''type'', JStr ''login''), (''format'', JStr ''json'')]"

definition fetch_login_token :: "login \<Rightarrow> world \<Rightarrow> (error + json) \<times> login \<times> world" where
  "fetch_login_token self w =
     (case session_request POST (sess self) (mediawiki_api_url self) params_login w of
        (Inl e, s', w') \<Rightarrow> (Inl e, self\<lparr>sess := s'\<rparr>, w')
      | (Inr response, s', w') \<Rightarrow>
          (case response_json response of
             Inl e \<Rightarrow> (Inl e, self\<lparr>sess := s'\<rparr>, w')
           | Inr j \<Rightarrow>
               (case getpath j [''query'', ''tokens'', ''logintoken''] of
                  Inl e \<Rightarrow> (Inl e, self\<lparr>sess := s'\<rparr>, w')
                | Inr tok \<Rightarrow> (Inr tok, self\<lparr>sess := s'\<rparr>, w'))))"

text \<open>Lines 110 and 134: \<^verbatim>\<open>self.s.post(self.mediawiki_api_url, data=params).json()\<close>.\<close>

definition post_json ::
  "login \<Rightarrow> (string \<times> json) list \<Rightarrow> world \<Rightarrow> (error + json) \<times> login \<times> world" where
  "post_json self params w =
     (case session_request POST (sess self) (mediawiki_api_url self) params w of
        (Inl e, s', w') \<Rightarrow> (Inl e, self\<lparr>sess := s'\<rparr>, w')
      | (Inr response, s', w') \<Rightarrow> (response_json response, self\<lparr>sess := s'\<rparr>, w'))"

text \<open>Lines 112 to 123: what \<^verbatim>\<open>__init__\<close> does with the answer to \<^verbatim>\<open>action=clientlogin\<close>.\<close>

definition check_clientlogin :: "json \<Rightarrow> bool \<Rightarrow> world \<Rightarrow> (error + unit) \<times> world" where
  "check_clientlogin login_result debug w =
     (let w1 = (if debug then print (Print [login_result]) w else w) in
      case py_in ''clientlogin'' login_result of
        Inl e \<Rightarrow> (Inl e, w1)
      | Inr True \<Rightarrow>
          (case getpath login_result [''clientlogin'', ''status''] of
             Inl e \<Rightarrow> (Inl e, w1)
           | Inr status \<Rightarrow>
               if status \<noteq> JStr ''PASS'' then
                 (case getitem login_result ''clientlogin'' of
                    Inl e \<Rightarrow> (Inl e, w1)
                  | Inr clientlogin \<Rightarrow>
                      (case getitem clientlogin ''messagecode'' of
                         Inl e \<Rightarrow> (Inl e, w1)
                       | Inr code \<Rightarrow>
                           (case getitem clientlogin ''message'' of
                              Inl e \<Rightarrow> (Inl e, w1)
                            | Inr msg \<Rightarrow>
                                (Inl (LoginError (Format msg_login_failed_code [code, msg])), w1))))
               else if debug then
                 (case getpath login_result [''clientlogin'', ''username''] of
                    Inl e \<Rightarrow> (Inl e, w1)
                  | Inr name \<Rightarrow>
                      (Inr (), print (Print [JStr ''Successfully logged in as'', name]) w1))
               else (Inr (), w1))
      | Inr False \<Rightarrow>
          (case getitem login_result ''error'' of
             Inl e \<Rightarrow> (Inl e, w1)
           | Inr err \<Rightarrow>
               (case getitem err ''code'' of
                  Inl e \<Rightarrow> (Inl e, w1)
                | Inr code \<Rightarrow>
                    (case getitem err ''info'' of
                       Inl e \<Rightarrow> (Inl e, w1)
                     | Inr info \<Rightarrow>
                         (Inl (LoginError (Format msg_login_failed_code [code, info])), w1)))))"

text \<open>The values a \<^verbatim>\<open>for\<close> loop draws from a decoded JSON value.\<close>

fun py_iter :: "json \<Rightarrow> error + json list" where
  "py_iter (JObj kvs) = Inr (map (\<lambda>kv. JStr (fst kv)) kvs)"
| "py_iter (JArr xs) = Inr xs"
| "py_iter (JStr s) = Inr (map (\<lambda>c. JStr [c]) s)"
| "py_iter j = Inl TypeError"

text \<open>Lines 146 and 147: the loop over the warnings.\<close>

fun print_warnings :: "json \<Rightarrow> json list \<Rightarrow> world \<Rightarrow> (error + unit) \<times> world" where
  "print_warnings warnings [] w = (Inr (), w)"
| "print_warnings warnings (message # rest) w =
     (case subscript warnings message of
        Inl e \<Rightarrow> (Inl e, w)
      | Inr entry \<Rightarrow>
          (case getitem entry ''*'' of
             Inl e \<Rightarrow> (Inl e, w)
           | Inr text \<Rightarrow>
               print_warnings warnings rest (print (Format ''* {}: {}'' [message, text]) w)))"

text \<open>Lines 136 to 147: what \<^verbatim>\<open>__init__\<close> does with the answer to \<^verbatim>\<open>action=login\<close>.\<close>

definition check_login :: "json \<Rightarrow> bool \<Rightarrow> world \<Rightarrow> (error + unit) \<times> world" where
  "check_login login_result debug w =
     (let w1 = (if debug then print (Print [login_result]) w else w) in
      case getpath login_result [''login'', ''result''] of
        Inl e \<Rightarrow> (Inl e, w1)
      | Inr result \<Rightarrow>
          if result \<noteq> JStr ''Success'' then
            (Inl (LoginError (Format msg_login_failed_reason [result])), w1)
          else
            (case (if debug then
                     (case getpath login_result [''login'', ''lgusername''] of
                        Inl e \<Rightarrow> (Inl e, w1)
                      | Inr name \<Rightarrow>
                          (Inr (), print (Print [JStr ''Successfully logged in as'', name]) w1))
                   else (Inr (), w1)) of
               (Inl e, w2) \<Rightarrow> (Inl e, w2)
             | (Inr _, w2) \<Rightarrow>
                 (case py_in ''warnings'' login_result of
                    Inl e \<Rightarrow> (Inl e, w2)
                  | Inr False \<Rightarrow> (Inr (), w2)
                  | Inr True \<Rightarrow>
                      (case getitem login_result ''warnings'' of
                         Inl e \<Rightarrow> (Inl e, w2)
                       | Inr warnings \<Rightarrow>
                           (case py_iter warnings of
                              Inl e \<Rightarrow>
                                (Inl e, print (Print [JStr ''MediaWiki login warnings messages:'']) w2)
                            | Inr messages \<Rightarrow>
                                print_warnings warnings messages
                                  (print (Print [JStr ''MediaWiki login warnings messages:'']) w2))))))"

text \<open>Lines 89 to 149: the branch taken when the OAuth consumer pair is not given.\<close>

definition init_login ::
  "login \<Rightarrow> string option \<Rightarrow> string option \<Rightarrow> bool \<Rightarrow> bool \<Rightarrow> world \<Rightarrow> (error + login) \<times> world" where
  "init_login self user pwd use_clientlogin debug w =
     (case fetch_login_token self w of
        (Inl e, self1, w1) \<Rightarrow> (Inl e, w1)
      | (Inr login_token, self1, w1) \<Rightarrow>
          (case (if use_clientlogin then
                   (case post_json self1
                           [(''action'', JStr ''clientlogin''), (''username'', opt_json user),
                            (''password'', opt_json pwd), (''logintoken'', login_token),
                            (''loginreturnurl'', JStr ''http://example.org/''),
                            (''format'', JStr ''json'')] w1 of
                      (Inl e, self2, w2) \<Rightarrow> (Inl e, self2, w2)
                    | (Inr login_result, self2, w2) \<Rightarrow>
                        (case check_clientlogin login_result debug w2 of
                           (r, w3) \<Rightarrow> (r, self2, w3)))
                 else
                   (case post_json self1
                           [(''action'', JStr ''login''), (''lgname'', opt_json user),
                            (''lgpassword'', opt_json pwd), (''lgtoken'', login_token),
                            (''format'', JStr ''json'')] w1 of
                      (Inl e, self2, w2) \<Rightarrow> (Inl e, self2, w2)
                    | (Inr login_result, self2, w2) \<Rightarrow>
                        (case check_login login_result debug w2 of
                           (r, w3) \<Rightarrow> (r, self2, w3)))) of
             (Inl e, self2, w3) \<Rightarrow> (Inl e, w3)
           | (Inr _, self2, w3) \<Rightarrow>
               (case generate_edit_credentials self2 w3 of
                  (Inl e, self3, w4) \<Rightarrow> (Inl e, w4)
                | (Inr _, self3, w4) \<Rightarrow> (Inr self3, w4))))"

text \<open>
  Lines 48 to 73: the attributes every object gets, before the strategy is chosen. The
  arguments are those of the source that these lines read.
\<close>

definition init_attributes ::
  "string option \<Rightarrow> string option \<Rightarrow> string option \<Rightarrow> real \<Rightarrow> string option \<Rightarrow> string option
     \<Rightarrow> string \<Rightarrow> string option \<Rightarrow> bool \<Rightarrow> world \<Rightarrow> login \<times> world" where
  "init_attributes user api_url_arg index_url_arg renew_period consumer_key_arg consumer_secret_arg
                   callback_url_arg user_agent_arg debug w =
     (let api = (case api_url_arg of None \<Rightarrow> config_MEDIAWIKI_API_URL w | Some u \<Rightarrow> u);
          idx = (case index_url_arg of None \<Rightarrow> config_MEDIAWIKI_INDEX_URL w | Some u \<Rightarrow> u);
          w1 = (if debug then print (Print [JStr api]) w else w)
      in case time_time w1 of (t, w2) \<Rightarrow>
         (case init_user_agent user user_agent_arg w2 of (ua, w3) \<Rightarrow>
            (\<lparr>mediawiki_api_url = api, mediawiki_index_url = idx,
              sess = \<lparr>headers = AList.update ''User-Agent'' ua (requests_default_headers w3),
                      cookies = [], auth = None\<rparr>,
              edit_token = JStr [], instantiation_time = t,
              token_renew_period = renew_period,
              consumer_key = consumer_key_arg, consumer_secret = consumer_secret_arg,
              response_qs = None, callback_url = callback_url_arg, user_agent = ua,
              consumer_token = None, handshaker = None, redirect = None,
              request_token = None\<rparr>, w3)))"

text \<open>
  \<^verbatim>\<open>Login.__init__\<close> (lines 22 to 149). The arguments are those of the source, in its
  order; an argument whose default is \<^verbatim>\<open>None\<close> is optional.
\<close>

definition Login_init ::
  "string option \<Rightarrow> string option \<Rightarrow> string option \<Rightarrow> string option \<Rightarrow> real \<Rightarrow> bool
     \<Rightarrow> string option \<Rightarrow> string option \<Rightarrow> string \<Rightarrow> string option \<Rightarrow> bool
     \<Rightarrow> world \<Rightarrow> (error + login) \<times> world" where
  "Login_init user pwd api_url_arg index_url_arg renew_period use_clientlogin
              consumer_key_arg consumer_secret_arg callback_url_arg user_agent_arg debug w =
     (case init_attributes user api_url_arg index_url_arg renew_period consumer_key_arg
             consumer_secret_arg callback_url_arg user_agent_arg debug w of
        (self, w3) \<Rightarrow>
          if truthy_str (consumer_key self) \<and> truthy_str (consumer_secret self)
          then init_oauth self w3
          else init_login self user pwd use_clientlogin debug w3)"

section \<open>Completing the OAuth handshake: \<^verbatim>\<open>Login.continue_oauth\<close>\<close>

text \<open>Truth value of an optional text or byte string.\<close>

fun truthy_pystring :: "pystring option \<Rightarrow> bool" where
  "truthy_pystring None = False"
| "truthy_pystring (Some (Str s)) = (s \<noteq> [])"
| "truthy_pystring (Some (Bytes b)) = (b \<noteq> [])"

text \<open>
  Line 210, \<^verbatim>\<open>x.split(b'?')[-1]\<close>: a text string rejects a bytes separator with
  \<^verbatim>\<open>TypeError\<close>, and so does \<^verbatim>\<open>None\<close>, which has no \<^verbatim>\<open>split\<close> (\<^verbatim>\<open>AttributeError\<close>),
  but \<^verbatim>\<open>self.response_qs\<close> is never \<^verbatim>\<open>None\<close> at that line.
\<close>

fun split_bytes_last :: "pystring \<Rightarrow> error + string" where
  "split_bytes_last (Bytes b) = Inr (last (split_on (CHR ''?'') b))"
| "split_bytes_last (Str s) = Inl TypeError"

text \<open>Reading an attribute that only the OAuth branch of \<^verbatim>\<open>__init__\<close> sets.\<close>

definition attr :: "string \<Rightarrow> 'a option \<Rightarrow> error + 'a" where
  "attr name v = (case v of None \<Rightarrow> Inl (AttributeError name) | Some x \<Rightarrow> Inr x)"

text \<open>Lines 205 to 207: the callback URL is asked from the user when none was passed.\<close>

definition ask_callback :: "login \<Rightarrow> world \<Rightarrow> (error + unit) \<times> login \<times> world" where
  "ask_callback self w =
     (if \<not> truthy_pystring (response_qs self) then
        (case attr ''redirect'' (redirect self) of
           Inl e \<Rightarrow> (Inl e, self, w)
         | Inr url \<Rightarrow>
             (case input (print (Print [JStr ''Callback URL: '']) (webbrowser_open url w)) of
                (Inl e, w') \<Rightarrow> (Inl e, self, w')
              | (Inr line, w') \<Rightarrow> (Inr (), self\<lparr>response_qs := Some (Str line)\<rparr>, w')))
      else (Inr (), self, w))"

text \<open>Line 213: \<^verbatim>\<open>self.handshaker.complete(self.request_token, response_qs)\<close>.\<close>

definition handshaker_complete ::
  "login \<Rightarrow> string \<Rightarrow> world \<Rightarrow> (error + token) \<times> world" where
  "handshaker_complete self qs w =
     (case attr ''handshaker'' (handshaker self) of
        Inl e \<Rightarrow> (Inl e, w)
      | Inr hs \<Rightarrow>
          (case attr ''request_token'' (request_token self) of
             Inl e \<Rightarrow> (Inl e, w)
           | Inr rt \<Rightarrow>
               (let w' = w\<lparr>completed := completed w @ [(hs, rt, qs)]\<rparr>
                in case provider_complete w (length (completed w)) of
                     None \<Rightarrow> (Inl HandshakeError, w')
                   | Some access_token \<Rightarrow> (Inr access_token, w'))))"

text \<open>\<^verbatim>\<open>Login.continue_oauth\<close> (lines 195 to 222).\<close>

definition continue_oauth ::
  "login \<Rightarrow> pystring option \<Rightarrow> world \<Rightarrow> (error + unit) \<times> login \<times> world" where
  "continue_oauth self oauth_callback_data w =
     (case ask_callback (self\<lparr>response_qs := oauth_callback_data\<rparr>) w of
        (Inl e, self1, w1) \<Rightarrow> (Inl e, self1, w1)
      | (Inr _, self1, w1) \<Rightarrow>
          (case split_bytes_last (the (response_qs self1)) of
             Inl e \<Rightarrow> (Inl e, self1, w1)
           | Inr qs \<Rightarrow>
               (case handshaker_complete self1 qs w1 of
                  (Inl e, w2) \<Rightarrow> (Inl e, self1, w2)
                | (Inr access_token, w2) \<Rightarrow>
                    (case attr ''consumer_token'' (consumer_token self1) of
                       Inl e \<Rightarrow> (Inl e, self1, w2)
                     | Inr ct \<Rightarrow>
                         (let auth1 = \<lparr>client_key = tok_key ct, client_secret = tok_secret ct,
                                       resource_owner_key = tok_key access_token,
                                       resource_owner_secret = tok_secret access_token\<rparr>;
                              self2 = self1\<lparr>sess := (sess self1)\<lparr>auth := Some auth1\<rparr>\<rparr>
                          in case generate_edit_credentials self2 w2 of
                               (Inl e, self3, w3) \<Rightarrow> (Inl e, self3, w3)
                             | (Inr _, self3, w3) \<Rightarrow> (Inr (), self3, w3))))))"

section \<open>Notions used to state the properties\<close>

text \<open>The one request \<^verbatim>\<open>generate_edit_credentials\<close> sends: the edit-token query.\<close>

definition token_request :: "login \<Rightarrow> request" where
  "token_request self =
     \<lparr>req_method = GET, req_url = mediawiki_api_url self, req_fields = params_edit,
      req_headers = headers (sess self), req_cookies = cookies (sess self),
      req_auth = auth (sess self)\<rparr>"

text \<open>
  The replies on which a refresh fails: the transport raises, the body is not JSON, or
  the path \<^verbatim>\<open>['query']['tokens']['csrftoken']\<close> is absent from the decoded body.
\<close>

fun refresh_fails :: "http_reply \<Rightarrow> bool" where
  "refresh_fails ConnectionFailure = True"
| "refresh_fails (Response c None) = True"
| "refresh_fails (Response c (Some j)) = isl (getpath j [''query'', ''tokens'', ''csrftoken''])"

text \<open>The test of line 182 and the test of line 171, on the clock reading \<open>now\<close>.\<close>

definition token_stale :: "login \<Rightarrow> real \<Rightarrow> bool" where
  "token_stale self now =
     (\<not> truthy (edit_token self) \<or> now - instantiation_time self > token_renew_period self)"

definition cookie_stale :: "login \<Rightarrow> real \<Rightarrow> bool" where
  "cookie_stale self now = (now - instantiation_time self > token_renew_period self)"

text \<open>The request a session method sends for the object \<open>self\<close>.\<close>

definition request_of :: "http_method \<Rightarrow> login \<Rightarrow> (string \<times> json) list \<Rightarrow> request" where
  "request_of m self flds =
     \<lparr>req_method = m, req_url = mediawiki_api_url self, req_fields = flds,
      req_headers = headers (sess self), req_cookies = cookies (sess self),
      req_auth = auth (sess self)\<rparr>"

text \<open>The second environment differs from the first in what was printed only.\<close>

definition printed_only :: "world \<Rightarrow> world \<Rightarrow> bool" where
  "printed_only w w' = (\<exists>out. w' = w\<lparr>stdout := out\<rparr>)"

text \<open>
  The second environment differs from the first at most in the requests sent and in what
  was printed.
\<close>

definition quiet :: "world \<Rightarrow> world \<Rightarrow> bool" where
  "quiet w w' =
     (clock w' = clock w \<and> ticks w' = ticks w \<and> server w' = server w \<and>
      provider_initiate w' = provider_initiate w \<and> initiated w' = initiated w \<and>
      provider_complete w' = provider_complete w \<and> completed w' = completed w \<and>
      stdin w' = stdin w \<and> browser w' = browser w \<and>
      config_MEDIAWIKI_API_URL w' = config_MEDIAWIKI_API_URL w \<and>
      config_MEDIAWIKI_INDEX_URL w' = config_MEDIAWIKI_INDEX_URL w \<and>
      config_USER_AGENT_DEFAULT w' = config_USER_AGENT_DEFAULT w \<and>
      requests_default_headers w' = requests_default_headers w \<and>
      str_casefold w' = str_casefold w)"

subsection \<open>Concrete environments and objects\<close>

definition nth_or :: "'a \<Rightarrow> 'a list \<Rightarrow> nat \<Rightarrow> 'a" where
  "nth_or d xs n = (if n < length xs then xs ! n else d)"

text \<open>
  An environment given by finite scripts: the clock readings (the last one repeats), the
  server's replies (then the connection fails), the outcomes of the handshake calls
  (then they raise) and the lines on standard input.
\<close>

definition world_with ::
  "real list \<Rightarrow> http_reply list \<Rightarrow> (string \<times> token) option list \<Rightarrow> token option list
     \<Rightarrow> string list \<Rightarrow> world" where
  "world_with readings replies inits completes lines =
     \<lparr>clock = nth_or (if readings = [] then 0 else last readings) readings, ticks = 0,
      server = nth_or ConnectionFailure replies, sent = [],
      provider_initiate = nth_or None inits, initiated = [],
      provider_complete = nth_or None completes, completed = [],
      stdin = lines, stdout = [], browser = [],
      config_MEDIAWIKI_API_URL = ''https://www.wikidata.org/w/api.php'',
      config_MEDIAWIKI_INDEX_URL = ''https://www.wikidata.org/w/index.php'',
      config_USER_AGENT_DEFAULT = ''WikibaseIntegrator'',
      requests_default_headers = [(''User-Agent'', ''python-requests''), (''Accept'', ''*/*'')],
      str_casefold = ascii_casefold\<rparr>"

text \<open>The answer \<^verbatim>\<open>{"query": {"tokens": {"csrftoken": tok}}}\<close>.\<close>

definition csrf_reply :: "string \<Rightarrow> http_reply" where
  "csrf_reply tok =
     Response [] (Some (JObj [(''query'', JObj [(''tokens'', JObj [(''csrftoken'', JStr tok)])])]))"

text \<open>
  A logged-in object as password login leaves it, holding the token \<^verbatim>\<open>abc+\<close> stamped at
  clock reading 1000, with the default renew period.
\<close>

definition example_login :: login where
  "example_login =
     \<lparr>mediawiki_api_url = ''https://www.wikidata.org/w/api.php'',
      mediawiki_index_url = ''https://www.wikidata.org/w/index.php'',
      sess = \<lparr>headers = [(''User-Agent'', ''WikibaseIntegrator (User:alice)''), (''Accept'', ''*/*'')],
              cookies = [(''session'', ''s1'')], auth = None\<rparr>,
      edit_token = JStr ''abc+'', instantiation_time = 1000, token_renew_period = 1800,
      consumer_key = None, consumer_secret = None, response_qs = None, callback_url = ''oob'',
      user_agent = ''WikibaseIntegrator (User:alice)'',
      consumer_token = None, handshaker = None, redirect = None, request_token = None\<rparr>"

text \<open>
  The object that \<^verbatim>\<open>Login(consumer_key='ckey', consumer_secret='csecret')\<close> yields in
  \<open>example_oauth_world\<close> (see \<open>example_oauth_login_constructed\<close>).
\<close>

definition example_request_token :: token where
  "example_request_token = \<lparr>tok_key = ''rkey'', tok_secret = ''rsecret''\<rparr>"

definition example_access_token :: token where
  "example_access_token = \<lparr>tok_key = ''akey'', tok_secret = ''asecret''\<rparr>"

definition example_oauth_world :: world where
  "example_oauth_world =
     world_with [1000, 1001] [csrf_reply ''t1'', csrf_reply ''t2'']
       [Some (''https://www.wikidata.org/authorize'', example_request_token)]
       [Some example_access_token, Some example_access_token] []"

definition example_oauth_login :: login where
  "example_oauth_login =
     \<lparr>mediawiki_api_url = ''https://www.wikidata.org/w/api.php'',
      mediawiki_index_url = ''https://www.wikidata.org/w/index.php'',
      sess = \<lparr>headers = [(''User-Agent'', ''WikibaseIntegrator''), (''Accept'', ''*/*'')],
              cookies = [], auth = None\<rparr>,
      edit_token = JStr [], instantiation_time = 1000, token_renew_period = 1800,
      consumer_key = Some ''ckey'', consumer_secret = Some ''csecret'', response_qs = None,
      callback_url = ''oob'', user_agent = ''WikibaseIntegrator'',
      consumer_token = Some \<lparr>tok_key = ''ckey'', tok_secret = ''csecret''\<rparr>,
      handshaker = Some \<lparr>hs_index_url = ''https://www.wikidata.org/w/index.php'',
                          hs_consumer = \<lparr>tok_key = ''ckey'', tok_secret = ''csecret''\<rparr>,
                          hs_callback = ''oob'', hs_user_agent = ''WikibaseIntegrator''\<rparr>,
      redirect = Some ''https://www.wikidata.org/authorize'',
      request_token = Some example_request_token\<rparr>"

definition example_oauth_init :: "(error + login) \<times> world" where
  "example_oauth_init =
     Login_init None None None None 1800 False (Some ''ckey'') (Some ''csecret'') ''oob'' None False
       example_oauth_world"

text \<open>Environments for the accessors: the clock readings and the server's next reply.\<close>

definition example_boundary_world :: world where
  "example_boundary_world = world_with [2800, 2801] [csrf_reply ''new''] [] [] []"

definition example_stale_world :: world where
  "example_stale_world = world_with [2801, 2802] [csrf_reply ''new''] [] [] []"

definition example_fresh_world :: world where
  "example_fresh_world = world_with [2799, 2800] [csrf_reply ''new''] [] [] []"

definition example_broken_world :: world where
  "example_broken_world =
     world_with [5000, 5001] [Response [(''session'', ''s2'')] (Some (JObj [(''batchcomplete'', JStr [])]))]
       [] [] []"


text \<open>
  The object after line 221: \<^verbatim>\<open>self.s.auth = OAuth1(consumer key and secret, access token
  key and secret)\<close>.
\<close>

definition signed :: "login \<Rightarrow> token \<Rightarrow> token \<Rightarrow> login" where
  "signed self ct access_token =
     self\<lparr>sess := (sess self)\<lparr>auth := Some \<lparr>client_key = tok_key ct, client_secret = tok_secret ct,
                                    resource_owner_key = tok_key access_token,
                                    resource_owner_secret = tok_secret access_token\<rparr>\<rparr>\<rparr>"

text \<open>
  Completing the handshake of \<open>example_oauth_login\<close> later, when the clock reads 5000:
  the callback URL as bytes, an environment whose handshake provider accepts every
  exchange, and two calls of \<^verbatim>\<open>continue_oauth\<close> in a row with the same callback.
\<close>

definition example_callback :: "pystring option" where
  "example_callback = Some (Bytes ''https://example.org/cb?oauth_verifier=v1&oauth_token=rkey'')"

definition example_completing_world :: world where
  "example_completing_world =
     world_with [5000, 5001] [csrf_reply ''t1'', csrf_reply ''t2''] []
       [Some example_access_token, Some example_access_token]
       [''https://example.org/cb?oauth_verifier=v1&oauth_token=rkey'']"

definition example_first_completion :: "(error + unit) \<times> login \<times> world" where
  "example_first_completion =
     continue_oauth example_oauth_login example_callback example_completing_world"

definition example_second_completion :: "(error + unit) \<times> login \<times> world" where
  "example_second_completion =
     continue_oauth (fst (snd example_first_completion)) example_callback
       (snd (snd example_first_completion))"


text \<open>The same completion with a provider that accepts the exchange once only.\<close>

definition example_strict_world :: world where
  "example_strict_world =
     world_with [5000, 5001] [csrf_reply ''t1'', csrf_reply ''t2''] [] [Some example_access_token] []"

definition example_strict_completion :: "(error + unit) \<times> login \<times> world" where
  "example_strict_completion =
     continue_oauth example_oauth_login example_callback example_strict_world"

text \<open>
  Password login of \<^verbatim>\<open>alice\<close>: the answers to the login-token query, to \<^verbatim>\<open>action=login\<close>
  and to the edit-token query. The construction yields \<open>example_login\<close> (see
  \<open>example_login_constructed\<close>).
\<close>

definition logintoken_reply :: http_reply where
  "logintoken_reply =
     Response [] (Some (JObj [(''query'', JObj [(''tokens'', JObj [(''logintoken'', JStr ''lt+'')])])]))"

definition login_success_reply :: http_reply where
  "login_success_reply =
     Response [(''session'', ''s1'')]
       (Some (JObj [(''login'', JObj [(''result'', JStr ''Success''), (''lgusername'', JStr ''alice'')])]))"

definition example_password_world :: world where
  "example_password_world =
     world_with [1000, 1001] [logintoken_reply, login_success_reply, csrf_reply ''abc+''] [] [] []"

definition example_password_init :: "(error + login) \<times> world" where
  "example_password_init =
     Login_init (Some ''alice'') (Some ''secret'') None None 1800 False None None ''oob'' None False
       example_password_world"

text \<open>
  Two further constructions in the same process, after \<open>example_password_init\<close>: one for
  \<^verbatim>\<open>bob\<close>, one for \<^verbatim>\<open>ALICE\<close>. The server's script is used up, so both fail at their
  first request.
\<close>

definition example_bob_init :: "(error + login) \<times> world" where
  "example_bob_init =
     Login_init (Some ''bob'') (Some ''pw'') None None 1800 False None None ''oob'' None False
       (snd example_password_init)"

definition example_alice_again_init :: "(error + login) \<times> world" where
  "example_alice_again_init =
     Login_init (Some ''ALICE'') (Some ''secret'') None None 1800 False None None ''oob'' None False
       (snd example_password_init)"

text \<open>
  Client login of \<^verbatim>\<open>alice\<close> (\<^verbatim>\<open>use_clientlogin=True\<close>): the answers to \<^verbatim>\<open>action=clientlogin\<close>
  that the properties below use, and the construction in an environment that gives one
  of them after the login token.
\<close>

definition clientlogin_fail_reply :: http_reply where
  "clientlogin_fail_reply =
     Response []
       (Some (JObj [(''clientlogin'',
                     JObj [(''status'', JStr ''FAIL''), (''messagecode'', JStr ''wrongpassword''),
                           (''message'', JStr ''Incorrect username or password entered.'')])]))"

definition clientlogin_error_reply :: http_reply where
  "clientlogin_error_reply =
     Response []
       (Some (JObj [(''error'', JObj [(''code'', JStr ''badpass''), (''info'', JStr ''Incorrect password'')])]))"

definition clientlogin_pass_reply :: http_reply where
  "clientlogin_pass_reply =
     Response [(''session'', ''s1'')]
       (Some (JObj [(''clientlogin'', JObj [(''status'', JStr ''PASS''), (''username'', JStr ''alice'')])]))"

definition example_clientlogin_world :: "http_reply \<Rightarrow> world" where
  "example_clientlogin_world reply =
     world_with [1000, 1001] [logintoken_reply, reply, csrf_reply ''abc+''] [] [] []"

definition example_clientlogin_init :: "http_reply \<Rightarrow> (error + login) \<times> world" where
  "example_clientlogin_init reply =
     Login_init (Some ''alice'') (Some ''secret'') None None 1800 True None None ''oob'' None False
       (example_clientlogin_world reply)"

definition clientlogin_ui_reply :: http_reply where
  "clientlogin_ui_reply =
     Response []
       (Some (JObj [(''clientlogin'',
                     JObj [(''status'', JStr ''UI''),
                           (''message'', JStr ''Please enter a verification code.'')])]))"

definition clientlogin_pass_anonymous_reply :: http_reply where
  "clientlogin_pass_anonymous_reply =
     Response [(''session'', ''s1'')] (Some (JObj [(''clientlogin'', JObj [(''status'', JStr ''PASS'')])]))"

definition example_clientlogin_debug_init :: "http_reply \<Rightarrow> (error + login) \<times> world" where
  "example_clientlogin_debug_init reply =
     Login_init (Some ''alice'') (Some ''secret'') None None 1800 True None None ''oob'' None True
       (example_clientlogin_world reply)"

section \<open>Properties of the token accessors\<close>

lemmas example_defs =
  world_with_def nth_or_def csrf_reply_def example_login_def example_oauth_login_def
  example_oauth_world_def example_oauth_init_def example_request_token_def
  example_access_token_def example_boundary_world_def example_stale_world_def
  example_fresh_world_def example_broken_world_def example_callback_def
  example_completing_world_def example_strict_world_def logintoken_reply_def
  login_success_reply_def example_password_world_def example_password_init_def
  example_bob_init_def example_alice_again_init_def

lemmas refresh_defs =
  generate_edit_credentials_def session_request_def response_json_def Let_def

lemma example_oauth_login_constructed: "fst example_oauth_init = Inr example_oauth_login"
  by (simp add: example_defs Login_init_def init_attributes_def init_user_agent_def time_time_def
        init_oauth_def Let_def)

lemma example_oauth_world_after:
  "snd example_oauth_init =
     example_oauth_world\<lparr>ticks := 1,
        initiated := [(the (handshaker example_oauth_login), ''oob'')]\<rparr>"
  by (simp add: example_defs Login_init_def init_attributes_def init_user_agent_def time_time_def
        init_oauth_def Let_def)

subsection \<open>What one refresh does\<close>

lemma generate_world:
  "snd (snd (generate_edit_credentials self w)) = w\<lparr>sent := sent w @ [token_request self]\<rparr>"
  by (simp add: refresh_defs token_request_def split: http_reply.splits option.splits sum.splits)

lemma generate_fails:
  "isl (fst (generate_edit_credentials self w)) = refresh_fails (server w (length (sent w)))"
  by (cases "server w (length (sent w))")
     (auto simp add: refresh_defs split: option.splits sum.splits)

lemma generate_error_token:
  "isl (fst (generate_edit_credentials self w)) \<Longrightarrow>
     edit_token (fst (snd (generate_edit_credentials self w))) = edit_token self"
  by (auto simp add: refresh_defs split: http_reply.splits option.splits sum.splits)

lemma generate_frame:
  "fst (snd (generate_edit_credentials self w)) =
     self\<lparr>sess := sess (fst (snd (generate_edit_credentials self w))),
          edit_token := edit_token (fst (snd (generate_edit_credentials self w)))\<rparr>"
  by (auto simp add: refresh_defs split: http_reply.splits option.splits sum.splits)

lemma generate_timestamp:
  "instantiation_time (fst (snd (generate_edit_credentials self w))) = instantiation_time self"
  by (subst generate_frame) simp

lemma generate_success:
  "server w (length (sent w)) = Response sc (Some j) \<Longrightarrow>
   getpath j [''query'', ''tokens'', ''csrftoken''] = Inr tok \<Longrightarrow>
     fst (generate_edit_credentials self w) = Inr (merge_cookies (cookies (sess self)) sc) \<and>
     edit_token (fst (snd (generate_edit_credentials self w))) = tok \<and>
     cookies (sess (fst (snd (generate_edit_credentials self w)))) =
       merge_cookies (cookies (sess self)) sc"
  by (simp add: refresh_defs)

lemma time_time_frame:
  "server (snd (time_time w)) = server w" "sent (snd (time_time w)) = sent w"
  "fst (time_time w) = clock w (ticks w)" "clock (snd (time_time w)) = clock w"
  "ticks (snd (time_time w)) = Suc (ticks w)"
  by (simp_all add: time_time_def)

subsection \<open>When the accessors refresh\<close>

lemma get_edit_token_unfold:
  "get_edit_token self w =
     (if \<not> truthy (edit_token self) then
        (case generate_edit_credentials self w of
           (Inl e, self', w2) \<Rightarrow> (Inl e, self', w2)
         | (Inr _, self', w2) \<Rightarrow>
             (Inr (edit_token self'), self'\<lparr>instantiation_time := clock w2 (ticks w2)\<rparr>,
              w2\<lparr>ticks := Suc (ticks w2)\<rparr>))
      else if clock w (ticks w) - instantiation_time self > token_renew_period self then
        (case generate_edit_credentials self (w\<lparr>ticks := Suc (ticks w)\<rparr>) of
           (Inl e, self', w2) \<Rightarrow> (Inl e, self', w2)
         | (Inr _, self', w2) \<Rightarrow>
             (Inr (edit_token self'), self'\<lparr>instantiation_time := clock w2 (ticks w2)\<rparr>,
              w2\<lparr>ticks := Suc (ticks w2)\<rparr>))
      else (Inr (edit_token self), self, w\<lparr>ticks := Suc (ticks w)\<rparr>))"
  by (simp add: get_edit_token_def time_time_def split: prod.splits sum.splits)

lemma get_edit_cookie_unfold:
  "get_edit_cookie self w =
     (if clock w (ticks w) - instantiation_time self > token_renew_period self then
        (case generate_edit_credentials self (w\<lparr>ticks := Suc (ticks w)\<rparr>) of
           (Inl e, self', w2) \<Rightarrow> (Inl e, self', w2)
         | (Inr _, self', w2) \<Rightarrow>
             (Inr (cookies (sess self')), self'\<lparr>instantiation_time := clock w2 (ticks w2)\<rparr>,
              w2\<lparr>ticks := Suc (ticks w2)\<rparr>))
      else (Inr (cookies (sess self)), self, w\<lparr>ticks := Suc (ticks w)\<rparr>))"
  by (simp add: get_edit_cookie_def time_time_def split: prod.splits sum.splits)

lemma get_edit_token_sent:
  "sent (snd (snd (get_edit_token self w))) =
     (if token_stale self (clock w (ticks w)) then sent w @ [token_request self] else sent w)"
proof -
  have g: "sent (snd (snd (generate_edit_credentials self v))) = sent v @ [token_request self]" for v
    by (simp add: generate_world)
  show ?thesis
    using g [of w] g [of "w\<lparr>ticks := Suc (ticks w)\<rparr>"]
    by (auto simp add: get_edit_token_unfold token_stale_def split: prod.splits sum.splits)
qed

lemma get_edit_cookie_sent:
  "sent (snd (snd (get_edit_cookie self w))) =
     (if cookie_stale self (clock w (ticks w)) then sent w @ [token_request self] else sent w)"
proof -
  have g: "sent (snd (snd (generate_edit_credentials self v))) = sent v @ [token_request self]" for v
    by (simp add: generate_world)
  show ?thesis
    using g [of "w\<lparr>ticks := Suc (ticks w)\<rparr>"]
    by (auto simp add: get_edit_cookie_unfold cookie_stale_def split: prod.splits sum.splits)
qed

subsection \<open>The two accessors do not refresh under the same condition\<close>

text \<open>
  Claim C1. The claim: \<^verbatim>\<open>get_edit_cookie\<close> refreshes under exactly the condition under
  which \<^verbatim>\<open>get_edit_token\<close> does, in particular when no edit token was ever issued.
  The code differs: line 182 tests \<^verbatim>\<open>not self.edit_token or ...\<close>, line 171 tests the
  age only. On the object that the OAuth branch of the constructor has just returned
  (its edit token is the empty string) and within the renew period, \<^verbatim>\<open>get_edit_token\<close>
  sends the edit-token query and \<^verbatim>\<open>get_edit_cookie\<close> sends nothing.
\<close>

theorem get_edit_cookie_no_refresh_on_unissued_token:
  "fst example_oauth_init = Inr example_oauth_login \<and>
   \<not> truthy (edit_token example_oauth_login) \<and>
   sent (snd example_oauth_init) = [] \<and>
   sent (snd (snd (get_edit_token example_oauth_login (snd example_oauth_init)))) =
     [token_request example_oauth_login] \<and>
   sent (snd (snd (get_edit_cookie example_oauth_login (snd example_oauth_init)))) = []"
proof -
  have a: "\<not> truthy (edit_token example_oauth_login)"
    by (simp add: example_oauth_login_def)
  have b: "sent (snd example_oauth_init) = []"
    by (simp add: example_oauth_world_after) (simp add: example_defs)
  have c: "token_stale example_oauth_login t" for t
    using a by (simp add: token_stale_def)
  have d: "\<not> cookie_stale example_oauth_login
               (clock (snd example_oauth_init) (ticks (snd example_oauth_init)))"
    by (simp add: example_oauth_world_after cookie_stale_def)
       (simp add: example_defs)
  show ?thesis
    using a b c d
    by (simp add: example_oauth_login_constructed get_edit_token_sent get_edit_cookie_sent)
qed

subsection \<open>Refresh after the renew period\<close>

text \<open>
  Claim C2, as stated: a call of \<^verbatim>\<open>get_edit_token\<close> at a time \<open>t1\<close> with
  \<open>t1 - t0 \<ge> T\<close> refreshes, also at the boundary \<open>t1 = t0 + T\<close>. The test of line 182 is
  the strict \<^verbatim>\<open>(time.time() - self.instantiation_time) > self.token_renew_period\<close>: at
  the boundary the stored token is returned and no request is sent.
\<close>

theorem get_edit_token_boundary_no_refresh:
  "truthy (edit_token example_login) \<and>
   clock example_boundary_world (ticks example_boundary_world) - instantiation_time example_login
     = token_renew_period example_login \<and>
   get_edit_token example_login example_boundary_world =
     (Inr (JStr ''abc+''), example_login, example_boundary_world\<lparr>ticks := 1\<rparr>) \<and>
   sent (snd (snd (get_edit_token example_login example_boundary_world))) =
     sent example_boundary_world"
  by (simp add: get_edit_token_unfold) (simp add: example_defs)

text \<open>
  Claim C2, amended: for an object holding an issued (truthy) token stamped \<open>t0\<close>, a call
  of \<^verbatim>\<open>get_edit_token\<close> that reads the clock at \<open>t1\<close> with \<open>t1 - t0 > T\<close> sends exactly
  one request, the edit-token query; the call raises exactly when that refresh fails;
  when the refresh succeeds the call returns the fresh token and the object is stamped
  with the next clock reading.
\<close>

theorem get_edit_token_refreshes_once_when_older_than_period:
  assumes "truthy (edit_token self)"
    and "clock w (ticks w) - instantiation_time self > token_renew_period self"
  shows "sent (snd (snd (get_edit_token self w))) = sent w @ [token_request self] \<and>
         isl (fst (get_edit_token self w)) = refresh_fails (server w (length (sent w))) \<and>
         (\<forall>sc j tok. server w (length (sent w)) = Response sc (Some j) \<longrightarrow>
                     getpath j [''query'', ''tokens'', ''csrftoken''] = Inr tok \<longrightarrow>
            fst (get_edit_token self w) = Inr tok \<and>
            edit_token (fst (snd (get_edit_token self w))) = tok \<and>
            instantiation_time (fst (snd (get_edit_token self w))) = clock w (Suc (ticks w)))"
proof -
  let ?v = "w\<lparr>ticks := Suc (ticks w)\<rparr>"
  have s: "sent (snd (snd (get_edit_token self w))) = sent w @ [token_request self]"
    using assms by (simp add: get_edit_token_sent token_stale_def)
  have f: "isl (fst (get_edit_token self w)) = refresh_fails (server w (length (sent w)))"
    using assms generate_fails [of self ?v]
    by (auto simp add: get_edit_token_unfold split: prod.splits sum.splits)
  have k: "fst (get_edit_token self w) = Inr tok \<and>
           edit_token (fst (snd (get_edit_token self w))) = tok \<and>
           instantiation_time (fst (snd (get_edit_token self w))) = clock w (Suc (ticks w))"
    if "server w (length (sent w)) = Response sc (Some j)"
      and "getpath j [''query'', ''tokens'', ''csrftoken''] = Inr tok" for sc j tok
    using assms that generate_success [of ?v sc j tok self] generate_world [of self ?v]
    by (auto simp add: get_edit_token_unfold split: prod.splits sum.splits)
  from s f k show ?thesis by blast
qed

theorem get_edit_token_refreshes_once_when_older_than_period_witness:
  "truthy (edit_token example_login) \<and>
   clock example_stale_world (ticks example_stale_world) - instantiation_time example_login
     > token_renew_period example_login \<and>
   sent (snd (snd (get_edit_token example_login example_stale_world))) =
     [token_request example_login] \<and>
   fst (get_edit_token example_login example_stale_world) = Inr (JStr ''new'') \<and>
   instantiation_time (fst (snd (get_edit_token example_login example_stale_world))) = 2802"
proof -
  have a: "truthy (edit_token example_login)"
    by (simp add: example_login_def)
  have b: "clock example_stale_world (ticks example_stale_world) - instantiation_time example_login
             > token_renew_period example_login"
    by (simp add: example_defs)
  have c: "server example_stale_world (length (sent example_stale_world)) =
             Response [] (Some (JObj [(''query'', JObj [(''tokens'', JObj [(''csrftoken'', JStr ''new'')])])]))"
    by (simp add: example_defs)
  have d: "getpath (JObj [(''query'', JObj [(''tokens'', JObj [(''csrftoken'', JStr ''new'')])])])
             [''query'', ''tokens'', ''csrftoken''] = Inr (JStr ''new'')"
    by (simp add: getitem_def)
  have e: "sent example_stale_world = []" "clock example_stale_world (Suc (ticks example_stale_world)) = 2802"
    by (simp_all add: example_defs)
  from get_edit_token_refreshes_once_when_older_than_period [OF a b] a b c d e
  show ?thesis by simp
qed

subsection \<open>A failed refresh\<close>

text \<open>
  Claim C4. For every object and environment: \<^verbatim>\<open>get_edit_token\<close> raises exactly when its
  test asks for a refresh and that refresh fails (the transport raises, the body is not
  JSON, or the \<^verbatim>\<open>csrftoken\<close> path is absent), and then the stored edit token and its
  timestamp are what they were before the call; the same holds for \<^verbatim>\<open>get_edit_cookie\<close>
  with its own test.
\<close>

theorem failed_refresh_raises_and_keeps_token:
  "(isl (fst (get_edit_token self w)) \<longleftrightarrow>
      token_stale self (clock w (ticks w)) \<and> refresh_fails (server w (length (sent w)))) \<and>
   (isl (fst (get_edit_token self w)) \<longrightarrow>
      edit_token (fst (snd (get_edit_token self w))) = edit_token self \<and>
      instantiation_time (fst (snd (get_edit_token self w))) = instantiation_time self) \<and>
   (isl (fst (get_edit_cookie self w)) \<longleftrightarrow>
      cookie_stale self (clock w (ticks w)) \<and> refresh_fails (server w (length (sent w)))) \<and>
   (isl (fst (get_edit_cookie self w)) \<longrightarrow>
      edit_token (fst (snd (get_edit_cookie self w))) = edit_token self \<and>
      instantiation_time (fst (snd (get_edit_cookie self w))) = instantiation_time self)"
proof -
  let ?v = "w\<lparr>ticks := Suc (ticks w)\<rparr>"
  have g: "isl (fst (generate_edit_credentials self u)) = refresh_fails (server u (length (sent u)))"
    for u by (rule generate_fails)
  have e: "isl (fst (generate_edit_credentials self u)) \<Longrightarrow>
             edit_token (fst (snd (generate_edit_credentials self u))) = edit_token self" for u
    by (rule generate_error_token)
  have t: "instantiation_time (fst (snd (generate_edit_credentials self u))) = instantiation_time self"
    for u by (rule generate_timestamp)
  have 1: "isl (fst (get_edit_token self w)) \<longleftrightarrow>
             token_stale self (clock w (ticks w)) \<and> refresh_fails (server w (length (sent w)))"
    using g [of w] g [of ?v]
    by (auto simp add: get_edit_token_unfold token_stale_def split: prod.splits sum.splits)
  have 2: "isl (fst (get_edit_token self w)) \<longrightarrow>
             edit_token (fst (snd (get_edit_token self w))) = edit_token self \<and>
             instantiation_time (fst (snd (get_edit_token self w))) = instantiation_time self"
    using e [of w] e [of ?v] t [of w] t [of ?v]
    by (auto simp add: get_edit_token_unfold split: prod.splits sum.splits)
  have 3: "isl (fst (get_edit_cookie self w)) \<longleftrightarrow>
             cookie_stale self (clock w (ticks w)) \<and> refresh_fails (server w (length (sent w)))"
    using g [of ?v]
    by (auto simp add: get_edit_cookie_unfold cookie_stale_def split: prod.splits sum.splits)
  have 4: "isl (fst (get_edit_cookie self w)) \<longrightarrow>
             edit_token (fst (snd (get_edit_cookie self w))) = edit_token self \<and>
             instantiation_time (fst (snd (get_edit_cookie self w))) = instantiation_time self"
    using e [of ?v] t [of ?v]
    by (auto simp add: get_edit_cookie_unfold split: prod.splits sum.splits)
  from 1 2 3 4 show ?thesis by blast
qed

theorem failed_refresh_raises_and_keeps_token_witness:
  "token_stale example_login (clock example_broken_world (ticks example_broken_world)) \<and>
   cookie_stale example_login (clock example_broken_world (ticks example_broken_world)) \<and>
   refresh_fails (server example_broken_world (length (sent example_broken_world))) \<and>
   isl (fst (get_edit_token example_login example_broken_world)) \<and>
   edit_token (fst (snd (get_edit_token example_login example_broken_world))) = JStr ''abc+'' \<and>
   instantiation_time (fst (snd (get_edit_token example_login example_broken_world))) = 1000 \<and>
   isl (fst (get_edit_cookie example_login example_broken_world)) \<and>
   edit_token (fst (snd (get_edit_cookie example_login example_broken_world))) = JStr ''abc+'' \<and>
   instantiation_time (fst (snd (get_edit_cookie example_login example_broken_world))) = 1000"
proof -
  have a: "token_stale example_login (clock example_broken_world (ticks example_broken_world))"
    by (simp add: token_stale_def example_defs)
  have b: "cookie_stale example_login (clock example_broken_world (ticks example_broken_world))"
    by (simp add: cookie_stale_def example_defs)
  have c: "refresh_fails (server example_broken_world (length (sent example_broken_world)))"
    by (simp add: example_defs getitem_def)
  have d: "edit_token example_login = JStr ''abc+''" "instantiation_time example_login = 1000"
    by (simp_all add: example_login_def)
  from failed_refresh_raises_and_keeps_token [of example_login example_broken_world] a b c d
  show ?thesis by simp
qed

subsection \<open>No refresh within the renew period\<close>

text \<open>
  Claim C7. For every object holding a non-empty (truthy) edit token stamped \<open>t0\<close> with
  renew period \<open>T\<close>, a call of \<^verbatim>\<open>get_edit_token\<close> that reads the clock at \<open>t1 < t0 + T\<close>
  returns the stored token, leaves the object as it is and sends no request: the only
  effect on the environment is that the clock was read once.
\<close>

theorem get_edit_token_idempotent_within_period:
  assumes "truthy (edit_token self)"
    and "clock w (ticks w) < instantiation_time self + token_renew_period self"
  shows "get_edit_token self w = (Inr (edit_token self), self, w\<lparr>ticks := Suc (ticks w)\<rparr>) \<and>
         sent (snd (snd (get_edit_token self w))) = sent w"
  using assms by (simp add: get_edit_token_unfold)

theorem get_edit_token_idempotent_within_period_witness:
  "truthy (edit_token example_login) \<and>
   clock example_fresh_world (ticks example_fresh_world)
     < instantiation_time example_login + token_renew_period example_login \<and>
   fst (get_edit_token example_login example_fresh_world) = Inr (JStr ''abc+'') \<and>
   fst (snd (get_edit_token example_login example_fresh_world)) = example_login \<and>
   sent (snd (snd (get_edit_token example_login example_fresh_world))) = []"
proof -
  have a: "truthy (edit_token example_login)"
    by (simp add: example_login_def)
  have b: "clock example_fresh_world (ticks example_fresh_world)
             < instantiation_time example_login + token_renew_period example_login"
    by (simp add: example_defs)
  have c: "edit_token example_login = JStr ''abc+''" "sent example_fresh_world = []"
    by (simp_all add: example_defs)
  from get_edit_token_idempotent_within_period [OF a b] a b c show ?thesis by simp
qed

subsection \<open>Token and timestamp are assigned separately\<close>

text \<open>
  Claim C3, as stated: every regeneration replaces the token string and its timestamp in
  one step, so that after any refresh the stored timestamp is the time at which the new
  token was obtained. \<^verbatim>\<open>generate_edit_credentials\<close> assigns \<^verbatim>\<open>self.edit_token\<close> only.
  When \<^verbatim>\<open>continue_oauth\<close> completes the handshake of \<open>example_oauth_login\<close> while the
  clock reads 5000, the object holds the new token \<^verbatim>\<open>t1\<close> and still the timestamp 1000
  of its construction; the clock was not read at all.
\<close>

theorem continue_oauth_keeps_old_timestamp:
  "fst example_first_completion = Inr () \<and>
   edit_token example_oauth_login = JStr [] \<and>
   edit_token (fst (snd example_first_completion)) = JStr ''t1'' \<and>
   instantiation_time (fst (snd example_first_completion)) = 1000 \<and>
   clock example_completing_world (ticks example_completing_world) = 5000 \<and>
   ticks (snd (snd example_first_completion)) = ticks example_completing_world"
  by (simp add: example_first_completion_def example_defs continue_oauth_def ask_callback_def
        handshaker_complete_def attr_def refresh_defs getitem_def)

text \<open>
  Claim C3, amended: a token regeneration (\<^verbatim>\<open>generate_edit_credentials\<close>) replaces the
  edit-token string only and leaves the timestamp as it is; the timestamp is a separate
  assignment of the accessors: after a successful refresh triggered by \<^verbatim>\<open>get_edit_token\<close>
  or \<^verbatim>\<open>get_edit_cookie\<close> the object holds the new token and the clock reading taken
  right after the token was obtained (the reading that follows the one of the test, or
  the first reading when \<^verbatim>\<open>get_edit_token\<close> did not need the clock for its test).
\<close>

theorem regeneration_replaces_token_then_accessor_stamps:
  "instantiation_time (fst (snd (generate_edit_credentials self w))) = instantiation_time self \<and>
   (\<forall>sc j tok.
      server w (length (sent w)) = Response sc (Some j) \<longrightarrow>
      getpath j [''query'', ''tokens'', ''csrftoken''] = Inr tok \<longrightarrow>
        edit_token (fst (snd (generate_edit_credentials self w))) = tok \<and>
        (token_stale self (clock w (ticks w)) \<longrightarrow>
           edit_token (fst (snd (get_edit_token self w))) = tok \<and>
           instantiation_time (fst (snd (get_edit_token self w))) =
             clock w (if truthy (edit_token self) then Suc (ticks w) else ticks w)) \<and>
        (cookie_stale self (clock w (ticks w)) \<longrightarrow>
           edit_token (fst (snd (get_edit_cookie self w))) = tok \<and>
           instantiation_time (fst (snd (get_edit_cookie self w))) = clock w (Suc (ticks w))))"
proof -
  let ?v = "w\<lparr>ticks := Suc (ticks w)\<rparr>"
  have 1: "instantiation_time (fst (snd (generate_edit_credentials self w))) = instantiation_time self"
    by (rule generate_timestamp)
  have 2: "edit_token (fst (snd (generate_edit_credentials self w))) = tok \<and>
        (token_stale self (clock w (ticks w)) \<longrightarrow>
           edit_token (fst (snd (get_edit_token self w))) = tok \<and>
           instantiation_time (fst (snd (get_edit_token self w))) =
             clock w (if truthy (edit_token self) then Suc (ticks w) else ticks w)) \<and>
        (cookie_stale self (clock w (ticks w)) \<longrightarrow>
           edit_token (fst (snd (get_edit_cookie self w))) = tok \<and>
           instantiation_time (fst (snd (get_edit_cookie self w))) = clock w (Suc (ticks w)))"
    if r: "server w (length (sent w)) = Response sc (Some j)"
      and t: "getpath j [''query'', ''tokens'', ''csrftoken''] = Inr tok" for sc j tok
  proof -
    have gw: "fst (generate_edit_credentials self w) = Inr (merge_cookies (cookies (sess self)) sc)"
      "edit_token (fst (snd (generate_edit_credentials self w))) = tok"
      using generate_success [of w sc j tok self] r t by simp_all
    have gv: "fst (generate_edit_credentials self ?v) = Inr (merge_cookies (cookies (sess self)) sc)"
      "edit_token (fst (snd (generate_edit_credentials self ?v))) = tok"
      using generate_success [of ?v sc j tok self] r t by simp_all
    have a: "edit_token (fst (snd (get_edit_token self w))) = tok \<and>
           instantiation_time (fst (snd (get_edit_token self w))) =
             clock w (if truthy (edit_token self) then Suc (ticks w) else ticks w)"
      if "token_stale self (clock w (ticks w))"
      using that gw gv generate_world [of self w] generate_world [of self ?v]
      by (auto simp add: get_edit_token_unfold token_stale_def split: prod.splits sum.splits)
    have b: "edit_token (fst (snd (get_edit_cookie self w))) = tok \<and>
           instantiation_time (fst (snd (get_edit_cookie self w))) = clock w (Suc (ticks w))"
      if "cookie_stale self (clock w (ticks w))"
      using that gv generate_world [of self ?v]
      by (auto simp add: get_edit_cookie_unfold cookie_stale_def split: prod.splits sum.splits)
    from gw(2) a b show ?thesis by simp
  qed
  show ?thesis
  proof (intro conjI allI impI)
    show "instantiation_time (fst (snd (generate_edit_credentials self w))) = instantiation_time self"
      by (rule 1)
  qed (use 2 in simp_all)
qed

theorem regeneration_replaces_token_then_accessor_stamps_witness:
  "server example_stale_world (length (sent example_stale_world)) = csrf_reply ''new'' \<and>
   token_stale example_login (clock example_stale_world (ticks example_stale_world)) \<and>
   cookie_stale example_login (clock example_stale_world (ticks example_stale_world)) \<and>
   instantiation_time (fst (snd (generate_edit_credentials example_login example_stale_world))) = 1000 \<and>
   edit_token (fst (snd (generate_edit_credentials example_login example_stale_world))) = JStr ''new'' \<and>
   edit_token (fst (snd (get_edit_token example_login example_stale_world))) = JStr ''new'' \<and>
   instantiation_time (fst (snd (get_edit_token example_login example_stale_world))) = 2802 \<and>
   edit_token (fst (snd (get_edit_cookie example_login example_stale_world))) = JStr ''new'' \<and>
   instantiation_time (fst (snd (get_edit_cookie example_login example_stale_world))) = 2802"
proof -
  have a: "server example_stale_world (length (sent example_stale_world)) = csrf_reply ''new''"
    by (simp add: example_defs)
  have b: "csrf_reply ''new'' =
             Response [] (Some (JObj [(''query'', JObj [(''tokens'', JObj [(''csrftoken'', JStr ''new'')])])]))"
    by (simp add: csrf_reply_def)
  have c: "getpath (JObj [(''query'', JObj [(''tokens'', JObj [(''csrftoken'', JStr ''new'')])])])
             [''query'', ''tokens'', ''csrftoken''] = Inr (JStr ''new'')"
    by (simp add: getitem_def)
  have d: "token_stale example_login (clock example_stale_world (ticks example_stale_world))"
    "cookie_stale example_login (clock example_stale_world (ticks example_stale_world))"
    by (simp_all add: token_stale_def cookie_stale_def example_defs)
  have e: "truthy (edit_token example_login)" "instantiation_time example_login = 1000"
    "clock example_stale_world (Suc (ticks example_stale_world)) = 2802"
    by (simp_all add: example_defs)
  from regeneration_replaces_token_then_accessor_stamps [of example_login example_stale_world]
    a [unfolded b] c d e
  have "instantiation_time (fst (snd (generate_edit_credentials example_login example_stale_world))) = 1000 \<and>
   edit_token (fst (snd (generate_edit_credentials example_login example_stale_world))) = JStr ''new'' \<and>
   edit_token (fst (snd (get_edit_token example_login example_stale_world))) = JStr ''new'' \<and>
   instantiation_time (fst (snd (get_edit_token example_login example_stale_world))) = 2802 \<and>
   edit_token (fst (snd (get_edit_cookie example_login example_stale_world))) = JStr ''new'' \<and>
   instantiation_time (fst (snd (get_edit_cookie example_login example_stale_world))) = 2802"
    by simp
  with a d show ?thesis by simp
qed

section \<open>Properties of \<^verbatim>\<open>continue_oauth\<close>\<close>

lemmas oauth_defs =
  continue_oauth_def ask_callback_def handshaker_complete_def attr_def
  input_def webbrowser_open_def print_def Let_def

lemma continue_oauth_falsy:
  assumes "\<not> truthy_pystring cb"
  shows "isl (fst (continue_oauth self cb w)) \<and>
         completed (snd (snd (continue_oauth self cb w))) = completed w \<and>
         sent (snd (snd (continue_oauth self cb w))) = sent w \<and>
         (\<forall>url line rest. redirect self = Some url \<longrightarrow> stdin w = line # rest \<longrightarrow>
            fst (continue_oauth self cb w) = Inl TypeError)"
  using assms
  by (auto simp add: oauth_defs split: option.splits list.splits sum.splits prod.splits)

lemma continue_oauth_text:
  assumes "s \<noteq> []"
  shows "continue_oauth self (Some (Str s)) w =
           (Inl TypeError, self\<lparr>response_qs := Some (Str s)\<rparr>, w)"
  using assms by (simp add: oauth_defs)

lemma continue_oauth_success_bytes:
  assumes "\<not> isl (fst (continue_oauth self cb w))"
  shows "\<exists>b. cb = Some (Bytes b) \<and> b \<noteq> []"
proof (cases "truthy_pystring cb")
  case False
  with continue_oauth_falsy [of cb self w] assms show ?thesis by simp
next
  case True
  then obtain v where v: "cb = Some v" by (cases cb) auto
  show ?thesis
  proof (cases v)
    case (Str s)
    with v True assms show ?thesis
      by (simp add: continue_oauth_text)
  next
    case (Bytes b)
    with v True show ?thesis by simp
  qed
qed

lemma continue_oauth_bytes:
  assumes "b \<noteq> []"
  shows "continue_oauth self (Some (Bytes b)) w =
     (case handshaker self of
        None \<Rightarrow> (Inl (AttributeError ''handshaker''), self\<lparr>response_qs := Some (Bytes b)\<rparr>, w)
      | Some hs \<Rightarrow>
         (case request_token self of
            None \<Rightarrow> (Inl (AttributeError ''request_token''), self\<lparr>response_qs := Some (Bytes b)\<rparr>, w)
          | Some rt \<Rightarrow>
             (case provider_complete w (length (completed w)) of
                None \<Rightarrow> (Inl HandshakeError, self\<lparr>response_qs := Some (Bytes b)\<rparr>,
                          w\<lparr>completed := completed w @ [(hs, rt, last (split_on (CHR ''?'') b))]\<rparr>)
              | Some access_token \<Rightarrow>
                 (case consumer_token self of
                    None \<Rightarrow> (Inl (AttributeError ''consumer_token''), self\<lparr>response_qs := Some (Bytes b)\<rparr>,
                              w\<lparr>completed := completed w @ [(hs, rt, last (split_on (CHR ''?'') b))]\<rparr>)
                  | Some ct \<Rightarrow>
                     apfst (map_sum id (\<lambda>_. ()))
                       (generate_edit_credentials
                          (signed (self\<lparr>response_qs := Some (Bytes b)\<rparr>) ct access_token)
                          (w\<lparr>completed := completed w @ [(hs, rt, last (split_on (CHR ''?'') b))]\<rparr>))))))"
  using assms
  by (simp add: oauth_defs signed_def apfst_def map_prod_def split: option.splits sum.splits prod.splits)

lemma generate_attrs:
  "handshaker (fst (snd (generate_edit_credentials self w))) = handshaker self"
  "request_token (fst (snd (generate_edit_credentials self w))) = request_token self"
  "consumer_token (fst (snd (generate_edit_credentials self w))) = consumer_token self"
  "response_qs (fst (snd (generate_edit_credentials self w))) = response_qs self"
  by (subst generate_frame, simp)+

lemma generate_world_fields:
  "completed (snd (snd (generate_edit_credentials self w))) = completed w"
  "provider_complete (snd (snd (generate_edit_credentials self w))) = provider_complete w"
  "length (sent (snd (snd (generate_edit_credentials self w)))) = Suc (length (sent w))"
  by (simp_all add: generate_world)

lemma example_first_completion_eval:
  "fst example_first_completion = Inr ()"
  "handshaker (fst (snd example_first_completion)) = handshaker example_oauth_login"
  "request_token (fst (snd example_first_completion)) = Some example_request_token"
  "completed (snd (snd example_first_completion)) =
     [(the (handshaker example_oauth_login), example_request_token, ''oauth_verifier=v1&oauth_token=rkey'')]"
  "sent (snd (snd example_first_completion)) =
     [token_request (signed (example_oauth_login\<lparr>response_qs := example_callback\<rparr>)
                       \<lparr>tok_key = ''ckey'', tok_secret = ''csecret''\<rparr> example_access_token)]"
  by (simp_all add: example_first_completion_def example_defs continue_oauth_def ask_callback_def
        handshaker_complete_def attr_def refresh_defs getitem_def token_request_def signed_def)

subsection \<open>The interactive path\<close>

text \<open>
  Claim C9. For every call of \<^verbatim>\<open>continue_oauth\<close> whose \<^verbatim>\<open>oauth_callback_data\<close> is absent
  or empty, the call raises, the handshake provider's \<^verbatim>\<open>complete\<close> is not called and no
  request is sent; when the redirect URL exists and \<^verbatim>\<open>input()\<close> delivers a line (a text
  string, whatever it holds), the exception is the \<^verbatim>\<open>TypeError\<close> of
  \<^verbatim>\<open>str.split(b'?')\<close>. A non-empty text string passed as \<^verbatim>\<open>oauth_callback_data\<close>
  raises the same \<^verbatim>\<open>TypeError\<close>. Hence a call that does not raise was given non-empty
  bytes.
\<close>

theorem continue_oauth_interactive_path_raises:
  "(\<not> truthy_pystring cb \<longrightarrow>
      isl (fst (continue_oauth self cb w)) \<and>
      completed (snd (snd (continue_oauth self cb w))) = completed w \<and>
      sent (snd (snd (continue_oauth self cb w))) = sent w \<and>
      (\<forall>url line rest. redirect self = Some url \<longrightarrow> stdin w = line # rest \<longrightarrow>
         fst (continue_oauth self cb w) = Inl TypeError)) \<and>
   (\<forall>s. cb = Some (Str s) \<longrightarrow> s \<noteq> [] \<longrightarrow>
      continue_oauth self cb w = (Inl TypeError, self\<lparr>response_qs := cb\<rparr>, w)) \<and>
   (\<not> isl (fst (continue_oauth self cb w)) \<longrightarrow> (\<exists>b. cb = Some (Bytes b) \<and> b \<noteq> []))"
proof (intro conjI impI allI)
  assume f: "\<not> truthy_pystring cb"
  note k = continue_oauth_falsy [OF f, of self w]
  from k show "isl (fst (continue_oauth self cb w))" by simp
  from k show "completed (snd (snd (continue_oauth self cb w))) = completed w" by simp
  from k show "sent (snd (snd (continue_oauth self cb w))) = sent w" by simp
  fix url line rest
  assume "redirect self = Some url" "stdin w = line # rest"
  with k show "fst (continue_oauth self cb w) = Inl TypeError" by blast
next
  fix s
  assume "cb = Some (Str s)" "s \<noteq> []"
  then show "continue_oauth self cb w = (Inl TypeError, self\<lparr>response_qs := cb\<rparr>, w)"
    by (simp add: continue_oauth_text)
next
  assume "\<not> isl (fst (continue_oauth self cb w))"
  then show "\<exists>b. cb = Some (Bytes b) \<and> b \<noteq> []"
    by (rule continue_oauth_success_bytes)
qed

theorem continue_oauth_interactive_path_raises_witness:
  "\<not> truthy_pystring None \<and>
   redirect example_oauth_login = Some ''https://www.wikidata.org/authorize'' \<and>
   stdin example_completing_world = [''https://example.org/cb?oauth_verifier=v1&oauth_token=rkey''] \<and>
   fst (continue_oauth example_oauth_login None example_completing_world) = Inl TypeError \<and>
   completed (snd (snd (continue_oauth example_oauth_login None example_completing_world))) = [] \<and>
   sent (snd (snd (continue_oauth example_oauth_login None example_completing_world))) = [] \<and>
   fst (continue_oauth example_oauth_login (Some (Str ''https://example.org/cb?oauth_verifier=v1''))
          example_completing_world) = Inl TypeError \<and>
   \<not> isl (fst (continue_oauth example_oauth_login example_callback example_completing_world)) \<and>
   example_callback = Some (Bytes ''https://example.org/cb?oauth_verifier=v1&oauth_token=rkey'')"
proof -
  have a: "\<not> truthy_pystring None" by simp
  have b: "redirect example_oauth_login = Some ''https://www.wikidata.org/authorize''"
    "stdin example_completing_world = [''https://example.org/cb?oauth_verifier=v1&oauth_token=rkey'']"
    "completed example_completing_world = []" "sent example_completing_world = []"
    by (simp_all add: example_defs)
  have c: "\<not> isl (fst (continue_oauth example_oauth_login example_callback example_completing_world))"
    using example_first_completion_eval(1) by (simp add: example_first_completion_def)
  have d: "example_callback = Some (Bytes ''https://example.org/cb?oauth_verifier=v1&oauth_token=rkey'')"
    by (simp add: example_callback_def)
  from continue_oauth_interactive_path_raises [of None example_oauth_login example_completing_world]
    a b
  have e: "fst (continue_oauth example_oauth_login None example_completing_world) = Inl TypeError \<and>
   completed (snd (snd (continue_oauth example_oauth_login None example_completing_world))) = [] \<and>
   sent (snd (snd (continue_oauth example_oauth_login None example_completing_world))) = []"
    by simp
  from continue_oauth_interactive_path_raises
         [of "Some (Str ''https://example.org/cb?oauth_verifier=v1'')" example_oauth_login
             example_completing_world]
  have f: "fst (continue_oauth example_oauth_login (Some (Str ''https://example.org/cb?oauth_verifier=v1''))
          example_completing_world) = Inl TypeError"
    by simp
  from a b c d e f show ?thesis by simp
qed

subsection \<open>Calling \<^verbatim>\<open>continue_oauth\<close> a second time\<close>

text \<open>
  Claim C8, as stated: after the handshake was completed once, a second call of
  \<^verbatim>\<open>continue_oauth\<close> with the same, now consumed request token fails with a handshake
  error, the manager rejecting the reuse rather than running the exchange again.
  \<^verbatim>\<open>continue_oauth\<close> keeps no record of a completed handshake and never clears
  \<^verbatim>\<open>self.request_token\<close>: with a handshake provider that accepts the exchange again,
  the second call returns normally, after it has submitted the same request token a
  second time and sent a second edit-token query.
\<close>

theorem continue_oauth_second_call_succeeds:
  "fst example_first_completion = Inr () \<and>
   fst example_second_completion = Inr () \<and>
   completed (snd (snd example_second_completion)) =
     [(the (handshaker example_oauth_login), example_request_token, ''oauth_verifier=v1&oauth_token=rkey''),
      (the (handshaker example_oauth_login), example_request_token, ''oauth_verifier=v1&oauth_token=rkey'')] \<and>
   length (sent (snd (snd example_second_completion))) = 2 \<and>
   edit_token (fst (snd example_second_completion)) = JStr ''t2''"
  by (simp add: example_second_completion_def example_first_completion_def example_defs
        continue_oauth_def ask_callback_def handshaker_complete_def attr_def refresh_defs getitem_def)

text \<open>
  Claim C8, amended: for every manager on which \<^verbatim>\<open>continue_oauth\<close> has returned normally,
  a second call with the same callback data runs the exchange again: it submits the same
  stored request token to the handshake provider. Whether it fails is the provider's
  decision alone: when the provider rejects the exchange the call raises the handshake
  error and leaves the manager exactly as it was; when the provider accepts it the call
  goes on to send another edit-token query.
\<close>

theorem continue_oauth_second_call_resubmits_request_token:
  assumes ok: "continue_oauth self cb w = (Inr (), self', w')"
  shows "\<exists>hs rt b. cb = Some (Bytes b) \<and> b \<noteq> [] \<and>
           handshaker self' = Some hs \<and> request_token self' = Some rt \<and> request_token self = Some rt \<and>
           completed w' = completed w @ [(hs, rt, last (split_on (CHR ''?'') b))] \<and>
           completed (snd (snd (continue_oauth self' cb w'))) =
             completed w' @ [(hs, rt, last (split_on (CHR ''?'') b))] \<and>
           (provider_complete w' (length (completed w')) = None \<longrightarrow>
              continue_oauth self' cb w' =
                (Inl HandshakeError, self',
                 w'\<lparr>completed := completed w' @ [(hs, rt, last (split_on (CHR ''?'') b))]\<rparr>)) \<and>
           (provider_complete w' (length (completed w')) \<noteq> None \<longrightarrow>
              length (sent (snd (snd (continue_oauth self' cb w')))) = Suc (length (sent w')))"
proof -
  from ok have "\<not> isl (fst (continue_oauth self cb w))" by simp
  then obtain b where cb: "cb = Some (Bytes b)" and b: "b \<noteq> []"
    using continue_oauth_success_bytes by blast
  let ?qs = "last (split_on (CHR ''?'') b)"
  let ?self1 = "self\<lparr>response_qs := Some (Bytes b)\<rparr>"
  note u = continue_oauth_bytes [OF b, of self w]
  from ok cb have eq: "continue_oauth self (Some (Bytes b)) w = (Inr (), self', w')" by simp
  obtain hs where hs: "handshaker self = Some hs"
    using eq u by (cases "handshaker self") simp_all
  obtain rt where rt: "request_token self = Some rt"
    using eq u hs by (cases "request_token self") simp_all
  obtain access_token where at: "provider_complete w (length (completed w)) = Some access_token"
    using eq u hs rt by (cases "provider_complete w (length (completed w))") simp_all
  obtain ct where ct: "consumer_token self = Some ct"
    using eq u hs rt at by (cases "consumer_token self") simp_all
  let ?w2 = "w\<lparr>completed := completed w @ [(hs, rt, ?qs)]\<rparr>"
  let ?g = "generate_edit_credentials (signed ?self1 ct access_token) ?w2"
  have "apfst (map_sum id (\<lambda>_. ())) ?g = (Inr (), self', w')"
    using eq u hs rt at ct by simp
  then have "snd ?g = (self', w')"
    by (metis snd_apfst snd_conv)
  then have self': "self' = fst (snd ?g)" and w': "w' = snd (snd ?g)"
    by simp_all
  have a1: "handshaker self' = Some hs" "request_token self' = Some rt" "consumer_token self' = Some ct"
    "response_qs self' = Some (Bytes b)"
    using hs rt ct by (simp_all add: self' generate_attrs signed_def)
  have a2: "completed w' = completed w @ [(hs, rt, ?qs)]"
    by (simp add: w' generate_world_fields)
  have same: "self'\<lparr>response_qs := Some (Bytes b)\<rparr> = self'"
    using a1(4) by simp
  note u' = continue_oauth_bytes [OF b, of self' w', unfolded same]
  let ?w3 = "w'\<lparr>completed := completed w' @ [(hs, rt, ?qs)]\<rparr>"
  have a4: "continue_oauth self' cb w' = (Inl HandshakeError, self', ?w3)"
    if "provider_complete w' (length (completed w')) = None"
    using that a1 by (simp add: cb u')
  have a5: "length (sent (snd (snd (continue_oauth self' cb w')))) = Suc (length (sent w')) \<and>
            completed (snd (snd (continue_oauth self' cb w'))) = completed w' @ [(hs, rt, ?qs)]"
    if "provider_complete w' (length (completed w')) \<noteq> None"
  proof -
    from that obtain x where "provider_complete w' (length (completed w')) = Some x" by blast
    then show ?thesis
      using a1 by (simp add: cb u' generate_world_fields)
  qed
  have a3: "completed (snd (snd (continue_oauth self' cb w'))) = completed w' @ [(hs, rt, ?qs)]"
  proof (cases "provider_complete w' (length (completed w'))")
    case None
    then show ?thesis using a4 by simp
  next
    case (Some x)
    then show ?thesis using a5 by simp
  qed
  show ?thesis
  proof (intro exI conjI impI)
    show "cb = Some (Bytes b)" by (rule cb)
    show "b \<noteq> []" by (rule b)
    show "handshaker self' = Some hs" by (rule a1)
    show "request_token self' = Some rt" by (rule a1)
    show "request_token self = Some rt" by (rule rt)
    show "completed w' = completed w @ [(hs, rt, ?qs)]" by (rule a2)
    show "completed (snd (snd (continue_oauth self' cb w'))) = completed w' @ [(hs, rt, ?qs)]"
      by (rule a3)
    show "continue_oauth self' cb w' = (Inl HandshakeError, self', ?w3)"
      if "provider_complete w' (length (completed w')) = None"
      using that by (rule a4)
    show "length (sent (snd (snd (continue_oauth self' cb w')))) = Suc (length (sent w'))"
      if "provider_complete w' (length (completed w')) \<noteq> None"
      using that a5 by simp
  qed
qed

lemma example_strict_completion_eval:
  "fst example_strict_completion = Inr ()"
  "provider_complete (snd (snd example_strict_completion))
     (length (completed (snd (snd example_strict_completion)))) = None"
  "edit_token (fst (snd example_strict_completion)) = JStr ''t1''"
  by (simp_all add: example_strict_completion_def example_defs continue_oauth_def ask_callback_def
        handshaker_complete_def attr_def refresh_defs getitem_def)

lemma example_first_completion_provider:
  "provider_complete (snd (snd example_first_completion))
     (length (completed (snd (snd example_first_completion)))) \<noteq> None"
  by (simp add: example_first_completion_def example_defs continue_oauth_def ask_callback_def
        handshaker_complete_def attr_def refresh_defs getitem_def)

theorem continue_oauth_second_call_resubmits_request_token_witness:
  "fst example_strict_completion = Inr () \<and>
   provider_complete (snd (snd example_strict_completion))
     (length (completed (snd (snd example_strict_completion)))) = None \<and>
   fst (continue_oauth (fst (snd example_strict_completion)) example_callback
          (snd (snd example_strict_completion))) = Inl HandshakeError \<and>
   fst (snd (continue_oauth (fst (snd example_strict_completion)) example_callback
          (snd (snd example_strict_completion)))) = fst (snd example_strict_completion) \<and>
   edit_token (fst (snd example_strict_completion)) = JStr ''t1'' \<and>
   fst example_first_completion = Inr () \<and>
   length (sent (snd (snd example_second_completion))) =
     Suc (length (sent (snd (snd example_first_completion))))"
proof -
  have ok1: "continue_oauth example_oauth_login example_callback example_strict_world =
               (Inr (), fst (snd example_strict_completion), snd (snd example_strict_completion))"
    using example_strict_completion_eval(1)
    by (simp add: example_strict_completion_def prod_eq_iff)
  have r1: "continue_oauth (fst (snd example_strict_completion)) example_callback
              (snd (snd example_strict_completion)) =
            (Inl HandshakeError, fst (snd example_strict_completion),
             snd (snd (continue_oauth (fst (snd example_strict_completion)) example_callback
              (snd (snd example_strict_completion)))))"
    using continue_oauth_second_call_resubmits_request_token [OF ok1]
      example_strict_completion_eval(2)
    by auto
  have ok2: "continue_oauth example_oauth_login example_callback example_completing_world =
               (Inr (), fst (snd example_first_completion), snd (snd example_first_completion))"
    using example_first_completion_eval(1)
    by (simp add: example_first_completion_def prod_eq_iff)
  have r2: "length (sent (snd (snd example_second_completion))) =
              Suc (length (sent (snd (snd example_first_completion))))"
    using continue_oauth_second_call_resubmits_request_token [OF ok2]
      example_first_completion_provider
    by (auto simp add: example_second_completion_def)
  from r1 have r1': "fst (continue_oauth (fst (snd example_strict_completion)) example_callback
          (snd (snd example_strict_completion))) = Inl HandshakeError"
    "fst (snd (continue_oauth (fst (snd example_strict_completion)) example_callback
          (snd (snd example_strict_completion)))) = fst (snd example_strict_completion)"
    by (metis fst_conv, metis fst_conv snd_conv)
  from r1' r2 example_strict_completion_eval example_first_completion_eval(1)
  show ?thesis by simp
qed

section \<open>Properties of the constructor\<close>

subsection \<open>The steps of the login branch\<close>

lemma printed_only_refl: "printed_only w w"
  unfolding printed_only_def by (rule exI [of _ "stdout w"]) simp

lemma printed_only_print: "printed_only w w' \<Longrightarrow> printed_only w (print p w')"
  unfolding printed_only_def print_def by auto

lemma printed_only_fields:
  assumes "printed_only w w'"
  shows "sent w' = sent w" "server w' = server w" "clock w' = clock w" "ticks w' = ticks w"
    "initiated w' = initiated w" "config_USER_AGENT_DEFAULT w' = config_USER_AGENT_DEFAULT w"
  using assms unfolding printed_only_def by auto

lemma print_warnings_printed_only:
  "printed_only w0 w \<Longrightarrow> printed_only w0 (snd (print_warnings wv ms w))"
proof (induction ms arbitrary: w)
  case Nil
  then show ?case by simp
next
  case (Cons m ms)
  then show ?case
    by (auto simp add: printed_only_print split: sum.splits)
qed

lemma check_clientlogin_printed_only: "printed_only w (snd (check_clientlogin lr dbg w))"
  by (auto simp add: check_clientlogin_def Let_def printed_only_refl printed_only_print
      split: sum.splits bool.splits)

lemma check_login_printed_only: "printed_only w (snd (check_login lr dbg w))"
  by (auto simp add: check_login_def Let_def printed_only_refl printed_only_print
      print_warnings_printed_only
      split: sum.splits bool.splits prod.splits)


lemmas login_step_defs =
  fetch_login_token_def post_json_def session_request_def response_json_def Let_def

lemma fetch_login_token_world:
  "snd (snd (fetch_login_token self w)) = w\<lparr>sent := sent w @ [request_of POST self params_login]\<rparr>"
  by (simp add: login_step_defs request_of_def split: http_reply.splits option.splits sum.splits)

lemma fetch_login_token_self:
  "fst (snd (fetch_login_token self w)) = self\<lparr>sess := sess (fst (snd (fetch_login_token self w)))\<rparr>"
  "headers (sess (fst (snd (fetch_login_token self w)))) = headers (sess self)"
  "auth (sess (fst (snd (fetch_login_token self w)))) = auth (sess self)"
  by (simp_all add: login_step_defs split: http_reply.splits option.splits sum.splits)

lemma post_json_world:
  "snd (snd (post_json self ps w)) = w\<lparr>sent := sent w @ [request_of POST self ps]\<rparr>"
  by (simp add: login_step_defs request_of_def split: http_reply.splits option.splits sum.splits)

lemma post_json_self:
  "fst (snd (post_json self ps w)) = self\<lparr>sess := sess (fst (snd (post_json self ps w)))\<rparr>"
  "headers (sess (fst (snd (post_json self ps w)))) = headers (sess self)"
  "auth (sess (fst (snd (post_json self ps w)))) = auth (sess self)"
  by (simp_all add: login_step_defs split: http_reply.splits option.splits sum.splits)

lemma generate_Inr:
  assumes "fst (generate_edit_credentials self w) = Inr c"
  shows "\<exists>sc j. server w (length (sent w)) = Response sc (Some j) \<and>
           getpath j [''query'', ''tokens'', ''csrftoken''] =
             Inr (edit_token (fst (snd (generate_edit_credentials self w))))"
  using assms
  by (auto simp add: refresh_defs split: http_reply.splits option.splits sum.splits)

lemma init_login_Inr:
  assumes "init_login self user pwd cl dbg w = (Inr self', w')"
  obtains tok self1 w1 params lr self2 w2 w3 c where
    "fetch_login_token self w = (Inr tok, self1, w1)"
    "map_of params ''action'' = Some (JStr (if cl then ''clientlogin'' else ''login''))"
    "post_json self1 params w1 = (Inr lr, self2, w2)"
    "printed_only w2 w3"
    "generate_edit_credentials self2 w3 = (Inr c, self', w')"
proof (cases cl)
  case True
  from assms True obtain tok self1 w1 lr self2 w2 w3 c u where
    a: "fetch_login_token self w = (Inr tok, self1, w1)"
    "post_json self1 [(''action'', JStr ''clientlogin''), (''username'', opt_json user),
                            (''password'', opt_json pwd), (''logintoken'', tok),
                            (''loginreturnurl'', JStr ''http://example.org/''),
                            (''format'', JStr ''json'')] w1 = (Inr lr, self2, w2)"
    "check_clientlogin lr dbg w2 = (Inr u, w3)"
    "generate_edit_credentials self2 w3 = (Inr c, self', w')"
    by (auto simp add: init_login_def split: prod.splits sum.splits)
  from a(3) check_clientlogin_printed_only [of w2 lr dbg] have pk: "printed_only w2 w3" by simp
  show ?thesis
  proof (rule that [OF a(1) _ a(2) pk a(4)])
    show "map_of [(''action'', JStr ''clientlogin''), (''username'', opt_json user),
                            (''password'', opt_json pwd), (''logintoken'', tok),
                            (''loginreturnurl'', JStr ''http://example.org/''),
                            (''format'', JStr ''json'')] ''action'' =
            Some (JStr (if cl then ''clientlogin'' else ''login''))"
      using True by simp
  qed
next
  case False
  from assms False obtain tok self1 w1 lr self2 w2 w3 c u where
    a: "fetch_login_token self w = (Inr tok, self1, w1)"
    "post_json self1 [(''action'', JStr ''login''), (''lgname'', opt_json user),
                            (''lgpassword'', opt_json pwd), (''lgtoken'', tok),
                            (''format'', JStr ''json'')] w1 = (Inr lr, self2, w2)"
    "check_login lr dbg w2 = (Inr u, w3)"
    "generate_edit_credentials self2 w3 = (Inr c, self', w')"
    by (auto simp add: init_login_def split: prod.splits sum.splits)
  from a(3) check_login_printed_only [of w2 lr dbg] have pk: "printed_only w2 w3" by simp
  show ?thesis
  proof (rule that [OF a(1) _ a(2) pk a(4)])
    show "map_of [(''action'', JStr ''login''), (''lgname'', opt_json user),
                            (''lgpassword'', opt_json pwd), (''lgtoken'', tok),
                            (''format'', JStr ''json'')] ''action'' =
            Some (JStr (if cl then ''clientlogin'' else ''login''))"
      using False by simp
  qed
qed

lemma init_login_success:
  assumes "init_login self user pwd cl dbg w = (Inr self', w')"
  shows "\<exists>r0 r1 r2 sc j.
           sent w' = sent w @ [r0, r1, r2] \<and>
           req_method r0 = POST \<and> req_fields r0 = params_login \<and>
           req_method r1 = POST \<and>
           map_of (req_fields r1) ''action'' = Some (JStr (if cl then ''clientlogin'' else ''login'')) \<and>
           req_method r2 = GET \<and> req_fields r2 = params_edit \<and>
           req_url r2 = mediawiki_api_url self \<and>
           server w (length (sent w) + 2) = Response sc (Some j) \<and>
           getpath j [''query'', ''tokens'', ''csrftoken''] = Inr (edit_token self')"
proof -
  from assms obtain tok self1 w1 params lr self2 w2 w3 c where
    f: "fetch_login_token self w = (Inr tok, self1, w1)" and
    ac: "map_of params ''action'' = Some (JStr (if cl then ''clientlogin'' else ''login''))" and
    p: "post_json self1 params w1 = (Inr lr, self2, w2)" and
    k: "printed_only w2 w3" and
    g: "generate_edit_credentials self2 w3 = (Inr c, self', w')"
    by (rule init_login_Inr)
  let ?r0 = "request_of POST self params_login"
  let ?r1 = "request_of POST self1 params"
  let ?r2 = "token_request self2"
  have w1: "w1 = w\<lparr>sent := sent w @ [?r0]\<rparr>"
    using fetch_login_token_world [of self w] f by simp
  have s1: "mediawiki_api_url self1 = mediawiki_api_url self"
    using fetch_login_token_self(1) [of self w] f by (metis fst_conv snd_conv login.select_convs(1) login.update_convs(3) login.surjective)
  have w2: "w2 = w1\<lparr>sent := sent w1 @ [?r1]\<rparr>"
    using post_json_world [of self1 params w1] p by simp
  have s2: "mediawiki_api_url self2 = mediawiki_api_url self1"
    using post_json_self(1) [of self1 params w1] p by (metis fst_conv snd_conv login.select_convs(1) login.update_convs(3) login.surjective)
  have w3: "sent w3 = sent w @ [?r0, ?r1]" "server w3 = server w"
    using printed_only_fields [OF k] by (simp_all add: w2 w1)
  have w': "sent w' = sent w3 @ [?r2]"
    using generate_world [of self2 w3] g by simp
  from generate_Inr [of self2 w3 c] g obtain sc j where
    j: "server w3 (length (sent w3)) = Response sc (Some j)"
    "getpath j [''query'', ''tokens'', ''csrftoken''] = Inr (edit_token self')"
    by auto
  have all: "sent w' = sent w @ [?r0, ?r1, ?r2]" using w' w3 by simp
  have rq: "req_method ?r0 = POST" "req_fields ?r0 = params_login"
    "req_method ?r1 = POST" "req_fields ?r1 = params"
    "req_method ?r2 = GET" "req_fields ?r2 = params_edit"
    "req_url ?r2 = mediawiki_api_url self"
    by (simp_all add: request_of_def token_request_def s1 s2)
  have sv: "server w (length (sent w) + 2) = Response sc (Some j)"
    using j(1) w3 by simp
  show ?thesis
  proof (intro exI conjI)
    show "sent w' = sent w @ [?r0, ?r1, ?r2]" by (rule all)
    show "req_method ?r0 = POST" by (rule rq)
    show "req_fields ?r0 = params_login" by (rule rq)
    show "req_method ?r1 = POST" by (rule rq)
    show "map_of (req_fields ?r1) ''action'' = Some (JStr (if cl then ''clientlogin'' else ''login''))"
      using ac by (simp add: rq)
    show "req_method ?r2 = GET" by (rule rq)
    show "req_fields ?r2 = params_edit" by (rule rq)
    show "req_url ?r2 = mediawiki_api_url self" by (rule rq)
    show "server w (length (sent w) + 2) = Response sc (Some j)" by (rule sv)
    show "getpath j [''query'', ''tokens'', ''csrftoken''] = Inr (edit_token self')" by (rule j)
  qed
qed

subsection \<open>What the constructor leaves untouched\<close>

lemma quiet_refl: "quiet w w"
  by (simp add: quiet_def)

lemma quiet_trans: "quiet w w1 \<Longrightarrow> quiet w1 w2 \<Longrightarrow> quiet w w2"
  by (simp add: quiet_def)

lemma printed_only_quiet: "printed_only w w' \<Longrightarrow> quiet w w'"
  by (auto simp add: quiet_def printed_only_def)

lemma fetch_login_token_quiet: "fetch_login_token self w = (r, s1, w1) \<Longrightarrow> quiet w w1"
  using fetch_login_token_world [of self w] by (simp add: quiet_def)

lemma post_json_quiet: "post_json self ps w = (r, s1, w1) \<Longrightarrow> quiet w w1"
  using post_json_world [of self ps w] by (simp add: quiet_def)

lemma generate_quiet: "generate_edit_credentials self w = (r, s1, w1) \<Longrightarrow> quiet w w1"
  using generate_world [of self w] by (simp add: quiet_def)

lemma check_clientlogin_quiet: "check_clientlogin lr dbg w = (r, w1) \<Longrightarrow> quiet w w1"
  using check_clientlogin_printed_only [of w lr dbg] by (simp add: printed_only_quiet)

lemma check_login_quiet: "check_login lr dbg w = (r, w1) \<Longrightarrow> quiet w w1"
  using check_login_printed_only [of w lr dbg] by (simp add: printed_only_quiet)

lemma init_login_quiet: "quiet w (snd (init_login self user pwd cl dbg w))"
  by (auto simp add: init_login_def split: prod.splits sum.splits
      dest!: fetch_login_token_quiet post_json_quiet generate_quiet check_clientlogin_quiet
        check_login_quiet
      intro: quiet_trans)


lemma init_user_agent_eval:
  "fst (init_user_agent user ua w) =
     (if truthy_str ua then the ua else config_USER_AGENT_DEFAULT (snd (init_user_agent user ua w)))"
  "config_USER_AGENT_DEFAULT (snd (init_user_agent user ua w)) =
     (if \<not> truthy_str ua \<and> truthy_str user \<and>
         \<not> str_contains (str_casefold w (config_USER_AGENT_DEFAULT w)) (str_casefold w (the user))
      then config_USER_AGENT_DEFAULT w @ '' (User:'' @ the user @ '')''
      else config_USER_AGENT_DEFAULT w)"
  "sent (snd (init_user_agent user ua w)) = sent w"
  "server (snd (init_user_agent user ua w)) = server w"
  "initiated (snd (init_user_agent user ua w)) = initiated w"
  "provider_initiate (snd (init_user_agent user ua w)) = provider_initiate w"
  "str_casefold (snd (init_user_agent user ua w)) = str_casefold w"
  by (simp_all add: init_user_agent_def)

lemma init_attributes_world:
  "config_USER_AGENT_DEFAULT (snd (init_attributes user api idx period ck cs cb ua dbg w)) =
     (if \<not> truthy_str ua \<and> truthy_str user \<and>
         \<not> str_contains (str_casefold w (config_USER_AGENT_DEFAULT w)) (str_casefold w (the user))
      then config_USER_AGENT_DEFAULT w @ '' (User:'' @ the user @ '')''
      else config_USER_AGENT_DEFAULT w)"
  "sent (snd (init_attributes user api idx period ck cs cb ua dbg w)) = sent w"
  "server (snd (init_attributes user api idx period ck cs cb ua dbg w)) = server w"
  "initiated (snd (init_attributes user api idx period ck cs cb ua dbg w)) = initiated w"
  "provider_initiate (snd (init_attributes user api idx period ck cs cb ua dbg w)) = provider_initiate w"
  "str_casefold (snd (init_attributes user api idx period ck cs cb ua dbg w)) = str_casefold w"
  by (simp_all add: init_attributes_def Let_def time_time_def print_def init_user_agent_eval
      case_prod_beta)


lemma init_attributes_self:
  "edit_token (fst (init_attributes user api idx period ck cs cb ua dbg w)) = JStr []"
  "consumer_key (fst (init_attributes user api idx period ck cs cb ua dbg w)) = ck"
  "consumer_secret (fst (init_attributes user api idx period ck cs cb ua dbg w)) = cs"
  "auth (sess (fst (init_attributes user api idx period ck cs cb ua dbg w))) = None"
  "mediawiki_api_url (fst (init_attributes user api idx period ck cs cb ua dbg w)) =
     (case api of None \<Rightarrow> config_MEDIAWIKI_API_URL w | Some u \<Rightarrow> u)"
  "user_agent (fst (init_attributes user api idx period ck cs cb ua dbg w)) =
     (if truthy_str ua then the ua
      else config_USER_AGENT_DEFAULT (snd (init_attributes user api idx period ck cs cb ua dbg w)))"
  by (simp_all add: init_attributes_def Let_def time_time_def print_def init_user_agent_eval
      case_prod_beta)

lemma init_oauth_eval:
  "sent (snd (init_oauth self w)) = sent w"
  "config_USER_AGENT_DEFAULT (snd (init_oauth self w)) = config_USER_AGENT_DEFAULT w"
  "str_casefold (snd (init_oauth self w)) = str_casefold w"
  "length (initiated (snd (init_oauth self w))) = Suc (length (initiated w))"
  "provider_initiate w (length (initiated w)) = None \<Longrightarrow> fst (init_oauth self w) = Inl HandshakeError"
  "provider_initiate w (length (initiated w)) = Some (url, rt) \<Longrightarrow>
     fst (init_oauth self w) =
       Inr (self\<lparr>consumer_token := Some \<lparr>tok_key = the (consumer_key self),
                                           tok_secret = the (consumer_secret self)\<rparr>,
                 handshaker := Some \<lparr>hs_index_url = mediawiki_index_url self,
                                      hs_consumer = \<lparr>tok_key = the (consumer_key self),
                                                     tok_secret = the (consumer_secret self)\<rparr>,
                                      hs_callback = callback_url self,
                                      hs_user_agent = user_agent self\<rparr>,
                 redirect := Some url, request_token := Some rt\<rparr>)"
  by (simp_all add: init_oauth_def Let_def split: option.splits)

lemma Login_init_unfold:
  "Login_init user pwd api idx period cl ck cs cb ua dbg w =
     (if truthy_str ck \<and> truthy_str cs
      then init_oauth (fst (init_attributes user api idx period ck cs cb ua dbg w))
                      (snd (init_attributes user api idx period ck cs cb ua dbg w))
      else init_login (fst (init_attributes user api idx period ck cs cb ua dbg w)) user pwd cl dbg
                      (snd (init_attributes user api idx period ck cs cb ua dbg w)))"
  by (simp add: Login_init_def case_prod_beta init_attributes_self)

lemma Login_init_config:
  "config_USER_AGENT_DEFAULT (snd (Login_init user pwd api idx period cl ck cs cb ua dbg w)) =
     config_USER_AGENT_DEFAULT (snd (init_attributes user api idx period ck cs cb ua dbg w))"
  using init_login_quiet [of "snd (init_attributes user api idx period ck cs cb ua dbg w)"
      "fst (init_attributes user api idx period ck cs cb ua dbg w)" user pwd cl dbg]
  by (simp add: Login_init_unfold init_oauth_eval quiet_def)

lemma Login_init_casefold:
  "str_casefold (snd (Login_init user pwd api idx period cl ck cs cb ua dbg w)) = str_casefold w"
  using init_login_quiet [of "snd (init_attributes user api idx period ck cs cb ua dbg w)"
      "fst (init_attributes user api idx period ck cs cb ua dbg w)" user pwd cl dbg]
  by (simp add: Login_init_unfold init_oauth_eval quiet_def init_attributes_world)

lemma init_login_user_agent:
  assumes "init_login self user pwd cl dbg w = (Inr self', w')"
  shows "user_agent self' = user_agent self"
proof -
  from assms obtain tok self1 w1 params lr self2 w2 w3 c where
    f: "fetch_login_token self w = (Inr tok, self1, w1)" and
    p: "post_json self1 params w1 = (Inr lr, self2, w2)" and
    g: "generate_edit_credentials self2 w3 = (Inr c, self', w')"
    by (rule init_login_Inr)
  have "user_agent (fst (snd (fetch_login_token self w))) = user_agent self"
    by (subst fetch_login_token_self(1)) simp
  with f have 1: "user_agent self1 = user_agent self" by simp
  have "user_agent (fst (snd (post_json self1 params w1))) = user_agent self1"
    by (subst post_json_self(1)) simp
  with p have 2: "user_agent self2 = user_agent self1" by simp
  have "user_agent (fst (snd (generate_edit_credentials self2 w3))) = user_agent self2"
    by (subst generate_frame) simp
  with g have 3: "user_agent self' = user_agent self2" by simp
  from 1 2 3 show ?thesis by simp
qed

subsection \<open>Concrete constructions\<close>

lemmas init_defs =
  Login_init_def init_attributes_def init_user_agent_def init_login_def fetch_login_token_def
  post_json_def check_login_def check_clientlogin_def time_time_def print_def ascii_casefold_def
  ascii_casefold_char_def char_of_def bit_0 opt_json_def getitem_def merge_cookies_def

lemma example_login_constructed: "fst example_password_init = Inr example_login"
  by (simp add: example_defs init_defs refresh_defs)

lemma example_password_config:
  "config_USER_AGENT_DEFAULT (snd example_password_init) = ''WikibaseIntegrator (User:alice)''"
  by (simp add: example_defs init_defs refresh_defs)



lemma example_later_constructions:
  "config_USER_AGENT_DEFAULT (snd example_bob_init) = ''WikibaseIntegrator (User:alice) (User:bob)''"
  "fst example_bob_init = Inl TransportError"
  "config_USER_AGENT_DEFAULT (snd example_alice_again_init) = ''WikibaseIntegrator (User:alice)''"
  by (simp_all add: example_defs init_defs refresh_defs)

subsection \<open>The shared default user agent\<close>

text \<open>
  Claim C10. For every construction with \<^verbatim>\<open>user_agent\<close> omitted (or empty) and a non-empty
  user name whose casefolded form is not contained in the casefolded shared value
  \<^verbatim>\<open>config['USER_AGENT_DEFAULT']\<close> (whatever function \<^verbatim>\<open>str.casefold\<close> is: it is the
  environment's \<open>str_casefold\<close>), the shared value after the construction is the old
  one followed by \<^verbatim>\<open> (User:<user>)\<close>, whether the construction then succeeds or raises;
  when \<^verbatim>\<open>user_agent\<close> is supplied, or no user name is given, or the name is already
  contained, the shared value is unchanged. An object constructed without \<^verbatim>\<open>user_agent\<close>
  uses the shared value as it then stands, so every later construction in the process
  sees the appended text.
\<close>

theorem construction_appends_user_to_shared_user_agent:
  "(\<not> truthy_str ua \<longrightarrow> user = Some u \<longrightarrow> u \<noteq> [] \<longrightarrow>
    \<not> str_contains (str_casefold w (config_USER_AGENT_DEFAULT w)) (str_casefold w u) \<longrightarrow>
      config_USER_AGENT_DEFAULT (snd (Login_init user pwd api idx period cl ck cs cb ua dbg w)) =
        config_USER_AGENT_DEFAULT w @ '' (User:'' @ u @ '')'') \<and>
   (truthy_str ua \<or> \<not> truthy_str user \<or>
    str_contains (str_casefold w (config_USER_AGENT_DEFAULT w)) (str_casefold w (the user)) \<longrightarrow>
      config_USER_AGENT_DEFAULT (snd (Login_init user pwd api idx period cl ck cs cb ua dbg w)) =
        config_USER_AGENT_DEFAULT w) \<and>
   (\<forall>self. fst (Login_init user pwd api idx period cl ck cs cb ua dbg w) = Inr self \<longrightarrow>
      \<not> truthy_str ua \<longrightarrow>
      user_agent self =
        config_USER_AGENT_DEFAULT (snd (Login_init user pwd api idx period cl ck cs cb ua dbg w)))"
proof (intro conjI impI allI)
  assume "\<not> truthy_str ua" "user = Some u" "u \<noteq> []"
    "\<not> str_contains (str_casefold w (config_USER_AGENT_DEFAULT w)) (str_casefold w u)"
  then show "config_USER_AGENT_DEFAULT (snd (Login_init user pwd api idx period cl ck cs cb ua dbg w)) =
        config_USER_AGENT_DEFAULT w @ '' (User:'' @ u @ '')''"
    by (simp add: Login_init_config init_attributes_world)
next
  assume "truthy_str ua \<or> \<not> truthy_str user \<or>
    str_contains (str_casefold w (config_USER_AGENT_DEFAULT w)) (str_casefold w (the user))"
  then show "config_USER_AGENT_DEFAULT (snd (Login_init user pwd api idx period cl ck cs cb ua dbg w)) =
        config_USER_AGENT_DEFAULT w"
    by (auto simp add: Login_init_config init_attributes_world)
next
  fix self
  let ?a = "init_attributes user api idx period ck cs cb ua dbg w"
  assume r: "fst (Login_init user pwd api idx period cl ck cs cb ua dbg w) = Inr self"
    and ua: "\<not> truthy_str ua"
  have "user_agent self = user_agent (fst ?a)"
  proof (cases "truthy_str ck \<and> truthy_str cs")
    case True
    with r have o: "fst (init_oauth (fst ?a) (snd ?a)) = Inr self"
      by (simp add: Login_init_unfold)
    then show ?thesis
      by (cases "provider_initiate (snd ?a) (length (initiated (snd ?a)))")
         (auto simp add: init_oauth_eval)
  next
    case False
    with r have "fst (init_login (fst ?a) user pwd cl dbg (snd ?a)) = Inr self"
      by (simp add: Login_init_unfold)
    then have "init_login (fst ?a) user pwd cl dbg (snd ?a) =
                 (Inr self, snd (init_login (fst ?a) user pwd cl dbg (snd ?a)))"
      by (simp add: prod_eq_iff)
    then show ?thesis by (rule init_login_user_agent)
  qed
  with ua show "user_agent self =
        config_USER_AGENT_DEFAULT (snd (Login_init user pwd api idx period cl ck cs cb ua dbg w))"
    by (simp add: init_attributes_self Login_init_config)
qed


theorem construction_appends_user_to_shared_user_agent_witness:
  "\<not> truthy_str None \<and>
   \<not> str_contains (str_casefold example_password_world (config_USER_AGENT_DEFAULT example_password_world))
        (str_casefold example_password_world ''alice'') \<and>
   config_USER_AGENT_DEFAULT example_password_world = ''WikibaseIntegrator'' \<and>
   config_USER_AGENT_DEFAULT (snd example_password_init) = ''WikibaseIntegrator (User:alice)'' \<and>
   fst example_password_init = Inr example_login \<and>
   user_agent example_login = ''WikibaseIntegrator (User:alice)'' \<and>
   config_USER_AGENT_DEFAULT (snd example_bob_init) = ''WikibaseIntegrator (User:alice) (User:bob)'' \<and>
   str_contains (str_casefold (snd example_password_init)
                    (config_USER_AGENT_DEFAULT (snd example_password_init)))
        (str_casefold (snd example_password_init) ''ALICE'') \<and>
   config_USER_AGENT_DEFAULT (snd example_alice_again_init) = ''WikibaseIntegrator (User:alice)''"
proof -
  have a: "\<not> truthy_str None" by simp
  have b: "config_USER_AGENT_DEFAULT example_password_world = ''WikibaseIntegrator''"
    by (simp add: example_defs)
  have cf0: "str_casefold example_password_world = ascii_casefold"
    by (simp add: example_defs)
  have cf1: "str_casefold (snd example_password_init) = ascii_casefold"
    by (simp add: example_password_init_def Login_init_casefold cf0)
  have c: "\<not> str_contains (str_casefold example_password_world (config_USER_AGENT_DEFAULT example_password_world))
        (str_casefold example_password_world ''alice'')"
    by (simp add: b cf0) (simp add: ascii_casefold_def ascii_casefold_char_def char_of_def bit_0)
  note t1 = construction_appends_user_to_shared_user_agent
    [where ua = None and user = "Some ''alice''" and u = "''alice''" and w = example_password_world
       and pwd = "Some ''secret''" and api = None and idx = None and period = 1800 and cl = False
       and ck = None and cs = None and cb = "''oob''" and dbg = False,
     folded example_password_init_def]
  from t1 a b c have d: "config_USER_AGENT_DEFAULT (snd example_password_init) = ''WikibaseIntegrator (User:alice)''"
    by simp
  from t1 a example_login_constructed
  have e: "user_agent example_login = config_USER_AGENT_DEFAULT (snd example_password_init)"
    by simp
  have f: "\<not> str_contains (str_casefold (snd example_password_init)
                    (config_USER_AGENT_DEFAULT (snd example_password_init)))
        (str_casefold (snd example_password_init) ''bob'')"
    by (simp add: d cf1) (simp add: ascii_casefold_def ascii_casefold_char_def char_of_def bit_0)
  note t2 = construction_appends_user_to_shared_user_agent
    [where ua = None and user = "Some ''bob''" and u = "''bob''" and w = "snd example_password_init"
       and pwd = "Some ''pw''" and api = None and idx = None and period = 1800 and cl = False
       and ck = None and cs = None and cb = "''oob''" and dbg = False,
     folded example_bob_init_def]
  from t2 a d f have g: "config_USER_AGENT_DEFAULT (snd example_bob_init) =
                          ''WikibaseIntegrator (User:alice) (User:bob)''"
    by simp
  have h: "str_contains (str_casefold (snd example_password_init)
                    (config_USER_AGENT_DEFAULT (snd example_password_init)))
        (str_casefold (snd example_password_init) ''ALICE'')"
    by (simp add: d cf1) (simp add: ascii_casefold_def ascii_casefold_char_def char_of_def bit_0)
  note t3 = construction_appends_user_to_shared_user_agent
    [where ua = None and user = "Some ''ALICE''" and u = "''ALICE''" and w = "snd example_password_init"
       and pwd = "Some ''secret''" and api = None and idx = None and period = 1800 and cl = False
       and ck = None and cs = None and cb = "''oob''" and dbg = False,
     folded example_alice_again_init_def]
  from t3 h d have i: "config_USER_AGENT_DEFAULT (snd example_alice_again_init) =
                         ''WikibaseIntegrator (User:alice)''"
    by simp
  from a b c d e g h i example_login_constructed show ?thesis by simp
qed

subsection \<open>The strategy chosen at construction\<close>

text \<open>
  Claim C6. For every construction in which both \<^verbatim>\<open>consumer_key\<close> and \<^verbatim>\<open>consumer_secret\<close>
  are supplied (present and non-empty, which is what line 75 tests), only the initiation
  of the handshake runs: one call of \<^verbatim>\<open>Handshaker.initiate\<close>, no HTTP request through the
  session (no login request, no edit-token query); the construction raises when the
  initiation raises, and otherwise returns an object that stores the redirect URL and the
  request token, whose edit token is the empty string and whose session carries no
  signer. For every construction lacking either consumer credential the handshake is not
  initiated, and a construction that returns has sent exactly three requests: the
  login-token query, the \<^verbatim>\<open>login\<close> or \<^verbatim>\<open>clientlogin\<close> submission, and last the edit-token
  query, whose \<^verbatim>\<open>csrftoken\<close> is the object's edit token.
\<close>

theorem construction_selects_strategy:
  "(truthy_str ck \<and> truthy_str cs \<longrightarrow>
      sent (snd (Login_init user pwd api idx period cl ck cs cb ua dbg w)) = sent w \<and>
      length (initiated (snd (Login_init user pwd api idx period cl ck cs cb ua dbg w))) =
        Suc (length (initiated w)) \<and>
      (provider_initiate w (length (initiated w)) = None \<longrightarrow>
         fst (Login_init user pwd api idx period cl ck cs cb ua dbg w) = Inl HandshakeError) \<and>
      (\<forall>url rt. provider_initiate w (length (initiated w)) = Some (url, rt) \<longrightarrow>
         (\<exists>self. fst (Login_init user pwd api idx period cl ck cs cb ua dbg w) = Inr self \<and>
            edit_token self = JStr [] \<and> redirect self = Some url \<and>
            request_token self = Some rt \<and> auth (sess self) = None))) \<and>
   (\<not> (truthy_str ck \<and> truthy_str cs) \<longrightarrow>
      initiated (snd (Login_init user pwd api idx period cl ck cs cb ua dbg w)) = initiated w \<and>
      (\<forall>self. fst (Login_init user pwd api idx period cl ck cs cb ua dbg w) = Inr self \<longrightarrow>
         (\<exists>r0 r1 r2 sc j.
            sent (snd (Login_init user pwd api idx period cl ck cs cb ua dbg w)) = sent w @ [r0, r1, r2] \<and>
            req_method r0 = POST \<and> req_fields r0 = params_login \<and>
            req_method r1 = POST \<and>
            map_of (req_fields r1) ''action'' = Some (JStr (if cl then ''clientlogin'' else ''login'')) \<and>
            req_method r2 = GET \<and> req_fields r2 = params_edit \<and>
            server w (length (sent w) + 2) = Response sc (Some j) \<and>
            getpath j [''query'', ''tokens'', ''csrftoken''] = Inr (edit_token self))))"
proof -
  let ?a = "init_attributes user api idx period ck cs cb ua dbg w"
  let ?r = "Login_init user pwd api idx period cl ck cs cb ua dbg w"
  have oauth: "sent (snd ?r) = sent w \<and>
      length (initiated (snd ?r)) = Suc (length (initiated w)) \<and>
      (provider_initiate w (length (initiated w)) = None \<longrightarrow> fst ?r = Inl HandshakeError) \<and>
      (\<forall>url rt. provider_initiate w (length (initiated w)) = Some (url, rt) \<longrightarrow>
         (\<exists>self. fst ?r = Inr self \<and> edit_token self = JStr [] \<and> redirect self = Some url \<and>
            request_token self = Some rt \<and> auth (sess self) = None))"
    if t: "truthy_str ck \<and> truthy_str cs"
  proof -
    from t have u: "?r = init_oauth (fst ?a) (snd ?a)"
      by (simp add: Login_init_unfold)
    have p: "provider_initiate (snd ?a) (length (initiated (snd ?a))) =
               provider_initiate w (length (initiated w))"
      by (simp add: init_attributes_world)
    have 1: "sent (snd ?r) = sent w"
      by (simp add: u init_oauth_eval init_attributes_world)
    have 2: "length (initiated (snd ?r)) = Suc (length (initiated w))"
      by (simp add: u init_oauth_eval init_attributes_world)
    have 3: "fst ?r = Inl HandshakeError" if "provider_initiate w (length (initiated w)) = None"
      using that p by (simp add: u init_oauth_eval)
    have 4: "\<exists>self. fst ?r = Inr self \<and> edit_token self = JStr [] \<and> redirect self = Some url \<and>
            request_token self = Some rt \<and> auth (sess self) = None"
      if "provider_initiate w (length (initiated w)) = Some (url, rt)" for url rt
      using that p init_oauth_eval(6) [of "snd ?a" url rt "fst ?a"]
      by (simp add: u init_attributes_self)
    from 1 2 3 4 show ?thesis by blast
  qed
  have login: "initiated (snd ?r) = initiated w \<and>
      (\<forall>self. fst ?r = Inr self \<longrightarrow>
         (\<exists>r0 r1 r2 sc j.
            sent (snd ?r) = sent w @ [r0, r1, r2] \<and>
            req_method r0 = POST \<and> req_fields r0 = params_login \<and>
            req_method r1 = POST \<and>
            map_of (req_fields r1) ''action'' = Some (JStr (if cl then ''clientlogin'' else ''login'')) \<and>
            req_method r2 = GET \<and> req_fields r2 = params_edit \<and>
            server w (length (sent w) + 2) = Response sc (Some j) \<and>
            getpath j [''query'', ''tokens'', ''csrftoken''] = Inr (edit_token self)))"
    if f: "\<not> (truthy_str ck \<and> truthy_str cs)"
  proof -
    from f have u: "?r = init_login (fst ?a) user pwd cl dbg (snd ?a)"
      by (auto simp add: Login_init_unfold)
    have 1: "initiated (snd ?r) = initiated w"
      using init_login_quiet [of "snd ?a" "fst ?a" user pwd cl dbg]
      by (simp add: u quiet_def init_attributes_world)
    have 2: "\<exists>r0 r1 r2 sc j.
            sent (snd ?r) = sent w @ [r0, r1, r2] \<and>
            req_method r0 = POST \<and> req_fields r0 = params_login \<and>
            req_method r1 = POST \<and>
            map_of (req_fields r1) ''action'' = Some (JStr (if cl then ''clientlogin'' else ''login'')) \<and>
            req_method r2 = GET \<and> req_fields r2 = params_edit \<and>
            server w (length (sent w) + 2) = Response sc (Some j) \<and>
            getpath j [''query'', ''tokens'', ''csrftoken''] = Inr (edit_token self)"
      if "fst ?r = Inr self" for self
    proof -
      from that have "init_login (fst ?a) user pwd cl dbg (snd ?a) = (Inr self, snd ?r)"
        by (simp add: u prod_eq_iff)
      from init_login_success [OF this] obtain r0 r1 r2 sc j where
        h: "sent (snd ?r) = sent (snd ?a) @ [r0, r1, r2]"
          "req_method r0 = POST" "req_fields r0 = params_login" "req_method r1 = POST"
          "map_of (req_fields r1) ''action'' = Some (JStr (if cl then ''clientlogin'' else ''login''))"
          "req_method r2 = GET" "req_fields r2 = params_edit"
          "server (snd ?a) (length (sent (snd ?a)) + 2) = Response sc (Some j)"
          "getpath j [''query'', ''tokens'', ''csrftoken''] = Inr (edit_token self)"
        by blast
      have s: "sent (snd ?a) = sent w" "server (snd ?a) = server w"
        by (simp_all add: init_attributes_world)
      show ?thesis
      proof (intro exI conjI)
        show "sent (snd ?r) = sent w @ [r0, r1, r2]" using h(1) s by simp
        show "req_method r0 = POST" by (rule h)
        show "req_fields r0 = params_login" by (rule h)
        show "req_method r1 = POST" by (rule h)
        show "map_of (req_fields r1) ''action'' = Some (JStr (if cl then ''clientlogin'' else ''login''))"
          by (rule h)
        show "req_method r2 = GET" by (rule h)
        show "req_fields r2 = params_edit" by (rule h)
        show "server w (length (sent w) + 2) = Response sc (Some j)" using h(8) s by simp
        show "getpath j [''query'', ''tokens'', ''csrftoken''] = Inr (edit_token self)" by (rule h)
      qed
    qed
    from 1 2 show ?thesis by blast
  qed
  from oauth login show ?thesis by blast
qed

theorem construction_selects_strategy_witness:
  "truthy_str (Some ''ckey'') \<and> truthy_str (Some ''csecret'') \<and>
   provider_initiate example_oauth_world (length (initiated example_oauth_world)) =
     Some (''https://www.wikidata.org/authorize'', example_request_token) \<and>
   sent (snd example_oauth_init) = sent example_oauth_world \<and>
   length (initiated (snd example_oauth_init)) = Suc (length (initiated example_oauth_world)) \<and>
   fst example_oauth_init = Inr example_oauth_login \<and>
   edit_token example_oauth_login = JStr [] \<and>
   \<not> (truthy_str None \<and> truthy_str None) \<and>
   fst example_password_init = Inr example_login \<and>
   initiated (snd example_password_init) = initiated example_password_world \<and>
   length (sent (snd example_password_init)) = length (sent example_password_world) + 3 \<and>
   edit_token example_login = JStr ''abc+''"
proof -
  have a: "truthy_str (Some ''ckey'') \<and> truthy_str (Some ''csecret'')" by simp
  have b: "provider_initiate example_oauth_world (length (initiated example_oauth_world)) =
             Some (''https://www.wikidata.org/authorize'', example_request_token)"
    by (simp add: example_defs)
  note t1 = construction_selects_strategy
    [where ck = "Some ''ckey''" and cs = "Some ''csecret''" and w = example_oauth_world
       and user = None and pwd = None and api = None and idx = None and period = 1800 and cl = False
       and cb = "''oob''" and ua = None and dbg = False,
     folded example_oauth_init_def]
  from t1 a have c: "sent (snd example_oauth_init) = sent example_oauth_world"
    "length (initiated (snd example_oauth_init)) = Suc (length (initiated example_oauth_world))"
    by simp_all
  have d: "\<not> (truthy_str None \<and> truthy_str None)" by simp
  note t2 = construction_selects_strategy
    [where ck = None and cs = None and w = example_password_world
       and user = "Some ''alice''" and pwd = "Some ''secret''" and api = None and idx = None
       and period = 1800 and cl = False and cb = "''oob''" and ua = None and dbg = False,
     folded example_password_init_def]
  from t2 d have e: "initiated (snd example_password_init) = initiated example_password_world"
    by simp
  from t2 d example_login_constructed obtain r0 r1 r2 where
    "sent (snd example_password_init) = sent example_password_world @ [r0, r1, r2]"
    by auto
  then have f: "length (sent (snd example_password_init)) = length (sent example_password_world) + 3"
    by simp
  have g: "edit_token example_oauth_login = JStr []" "edit_token example_login = JStr ''abc+''"
    by (simp_all add: example_defs)
  from a b c d e f g example_oauth_login_constructed example_login_constructed
  show ?thesis by simp
qed

subsection \<open>The answer to the client login\<close>

lemma in_keys_iff: "(k \<in> fst ` set kvs) = (map_of kvs k \<noteq> None)"
  by (simp add: map_of_eq_None_iff)

lemma getitem_object: "getitem (JObj kvs) k = (case map_of kvs k of None \<Rightarrow> Inl (KeyError (JStr k)) | Some v \<Rightarrow> Inr v)"
  by (simp add: getitem_def)

lemma check_clientlogin_failed:
  assumes "map_of kvs ''clientlogin'' = Some (JObj blk)" "map_of blk ''status'' = Some st"
    "st \<noteq> JStr ''PASS''" "map_of blk ''messagecode'' = Some code" "map_of blk ''message'' = Some msg"
  shows "fst (check_clientlogin (JObj kvs) dbg w) =
           Inl (LoginError (Format msg_login_failed_code [code, msg]))"
  using assms by (simp add: check_clientlogin_def Let_def in_keys_iff getitem_object)

lemma check_clientlogin_error:
  assumes "map_of kvs ''clientlogin'' = None" "map_of kvs ''error'' = Some (JObj eb)"
    "map_of eb ''code'' = Some code" "map_of eb ''info'' = Some info"
  shows "fst (check_clientlogin (JObj kvs) dbg w) =
           Inl (LoginError (Format msg_login_failed_code [code, info]))"
  using assms by (simp add: check_clientlogin_def Let_def in_keys_iff getitem_object)

lemma check_clientlogin_pass:
  assumes "map_of kvs ''clientlogin'' = Some (JObj blk)" "map_of blk ''status'' = Some (JStr ''PASS'')"
    "dbg \<longrightarrow> map_of blk ''username'' \<noteq> None"
  shows "fst (check_clientlogin (JObj kvs) dbg w) = Inr ()"
  using assms by (auto simp add: check_clientlogin_def Let_def in_keys_iff getitem_object)

lemma init_login_clientlogin:
  fixes self :: login and w :: world and sc0 sc1 :: "(string \<times> string) list" and lt :: json
    and user pwd :: "string option"
  defines "self1 \<equiv> self\<lparr>sess := (sess self)\<lparr>cookies := merge_cookies (cookies (sess self)) sc0\<rparr>\<rparr>"
  defines "self2 \<equiv> self\<lparr>sess := (sess self)\<lparr>cookies := merge_cookies (merge_cookies (cookies (sess self)) sc0) sc1\<rparr>\<rparr>"
  defines "w2 \<equiv> w\<lparr>sent := sent w @ [request_of POST self params_login,
              request_of POST self1
                [(''action'', JStr ''clientlogin''), (''username'', opt_json user),
                 (''password'', opt_json pwd), (''logintoken'', lt),
                 (''loginreturnurl'', JStr ''http://example.org/''),
                 (''format'', JStr ''json'')]]\<rparr>"
  assumes "server w (length (sent w)) = Response sc0 (Some j0)"
    and "getpath j0 [''query'', ''tokens'', ''logintoken''] = Inr lt"
    and "server w (Suc (length (sent w))) = Response sc1 (Some lr)"
  shows "init_login self user pwd True dbg w =
           (case check_clientlogin lr dbg w2 of
              (Inl e, w3) \<Rightarrow> (Inl e, w3)
            | (Inr _, w3) \<Rightarrow>
                (case generate_edit_credentials self2 w3 of
                   (Inl e, self3, w4) \<Rightarrow> (Inl e, w4)
                 | (Inr _, self3, w4) \<Rightarrow> (Inr self3, w4)))"
  using assms(4-6)
  by (simp add: init_login_def login_step_defs request_of_def self1_def self2_def w2_def
      split: prod.splits sum.splits)


lemma init_login_clientlogin_ex:
  assumes "server w (length (sent w)) = Response sc0 (Some j0)"
    and "getpath j0 [''query'', ''tokens'', ''logintoken''] = Inr lt"
    and "server w (Suc (length (sent w))) = Response sc1 (Some lr)"
  shows "\<exists>self2 w2. length (sent w2) = length (sent w) + 2 \<and> server w2 = server w \<and>
           init_login self user pwd True dbg w =
             (case check_clientlogin lr dbg w2 of
                (Inl e, w3) \<Rightarrow> (Inl e, w3)
              | (Inr _, w3) \<Rightarrow>
                  (case generate_edit_credentials self2 w3 of
                     (Inl e, self3, w4) \<Rightarrow> (Inl e, w4)
                   | (Inr _, self3, w4) \<Rightarrow> (Inr self3, w4)))"
proof (intro exI conjI)
  show "init_login self user pwd True dbg w =
          (case check_clientlogin lr dbg
                  (w\<lparr>sent := sent w @ [request_of POST self params_login,
                     request_of POST
                       (self\<lparr>sess := (sess self)\<lparr>cookies := merge_cookies (cookies (sess self)) sc0\<rparr>\<rparr>)
                       [(''action'', JStr ''clientlogin''), (''username'', opt_json user),
                        (''password'', opt_json pwd), (''logintoken'', lt),
                        (''loginreturnurl'', JStr ''http://example.org/''),
                        (''format'', JStr ''json'')]]\<rparr>) of
             (Inl e, w3) \<Rightarrow> (Inl e, w3)
           | (Inr _, w3) \<Rightarrow>
               (case generate_edit_credentials
                       (self\<lparr>sess := (sess self)\<lparr>cookies :=
                           merge_cookies (merge_cookies (cookies (sess self)) sc0) sc1\<rparr>\<rparr>) w3 of
                  (Inl e, self3, w4) \<Rightarrow> (Inl e, w4)
                | (Inr _, self3, w4) \<Rightarrow> (Inr self3, w4)))"
    using assms by (rule init_login_clientlogin)
qed simp_all

lemma subscript_no_login_error: "subscript j k \<noteq> Inl (LoginError p)"
  by (induction j k rule: subscript.induct) (auto simp add: py_index_def split: sum.splits option.splits)

lemma getpath_no_login_error: "getpath j ks \<noteq> Inl (LoginError p)"
  by (induction ks arbitrary: j)
     (auto simp add: getitem_def subscript_no_login_error split: sum.splits)

lemma getitem_no_login_error: "getitem j k \<noteq> Inl (LoginError p)"
  by (simp add: getitem_def subscript_no_login_error)

lemma generate_no_login_error: "fst (generate_edit_credentials self w) \<noteq> Inl (LoginError p)"
  by (auto simp add: refresh_defs getitem_no_login_error
      split: http_reply.splits option.splits sum.splits)


lemmas clientlogin_defs =
  clientlogin_fail_reply_def clientlogin_error_reply_def clientlogin_pass_reply_def
  clientlogin_ui_reply_def clientlogin_pass_anonymous_reply_def example_clientlogin_world_def
  example_clientlogin_init_def example_clientlogin_debug_init_def

text \<open>
  Claim C5, as stated: a \<^verbatim>\<open>clientlogin\<close> block whose status differs from \<^verbatim>\<open>PASS\<close> makes the
  construction raise \<^verbatim>\<open>LoginError\<close> with that block's code and message, a response
  without a \<^verbatim>\<open>clientlogin\<close> block makes it raise \<^verbatim>\<open>LoginError\<close> with the \<^verbatim>\<open>error\<close>
  block's code and info, and a block with status \<^verbatim>\<open>PASS\<close> raises nothing. Lines 116 to
  123 read \<^verbatim>\<open>messagecode\<close>, \<^verbatim>\<open>message\<close>, \<^verbatim>\<open>error\<close>, \<^verbatim>\<open>code\<close>, \<^verbatim>\<open>info\<close> and (with
  \<^verbatim>\<open>debug\<close>) \<^verbatim>\<open>username\<close> by subscript: a block with status \<^verbatim>\<open>UI\<close> that carries a
  message but no \<^verbatim>\<open>messagecode\<close>, a response with neither block, and with \<^verbatim>\<open>debug=True\<close>
  a \<^verbatim>\<open>PASS\<close> block without \<^verbatim>\<open>username\<close> each make the construction raise \<^verbatim>\<open>KeyError\<close>.
\<close>

theorem clientlogin_missing_fields_raise_key_error:
  "fst (example_clientlogin_init clientlogin_ui_reply) = Inl (KeyError (JStr ''messagecode'')) \<and>
   fst (example_clientlogin_init (Response [] (Some (JObj [])))) = Inl (KeyError (JStr ''error'')) \<and>
   fst (example_clientlogin_debug_init clientlogin_pass_anonymous_reply) =
     Inl (KeyError (JStr ''username''))"
  by (simp add: clientlogin_defs example_defs init_defs refresh_defs)

text \<open>
  Claim C5, amended: for every client-login construction whose login-token query was
  answered and whose login response is a JSON object, (1) a \<^verbatim>\<open>clientlogin\<close> block whose
  status differs from \<^verbatim>\<open>PASS\<close> and that carries \<^verbatim>\<open>messagecode\<close> and \<^verbatim>\<open>message\<close> makes
  the construction raise \<^verbatim>\<open>LoginError\<close> carrying these two, after two requests; (2) a
  response without a \<^verbatim>\<open>clientlogin\<close> block whose \<^verbatim>\<open>error\<close> block carries \<^verbatim>\<open>code\<close> and
  \<^verbatim>\<open>info\<close> makes it raise \<^verbatim>\<open>LoginError\<close> carrying these two, after two requests; (3) a
  \<^verbatim>\<open>clientlogin\<close> block with status \<^verbatim>\<open>PASS\<close> (carrying \<^verbatim>\<open>username\<close> when \<^verbatim>\<open>debug\<close> is
  on) raises no \<^verbatim>\<open>LoginError\<close>: the construction goes on to send the edit-token query as
  its third request, and it raises exactly when that refresh fails.
\<close>

theorem clientlogin_response_shapes:
  assumes nk: "\<not> (truthy_str ck \<and> truthy_str cs)"
    and r0: "server w (length (sent w)) = Response sc0 (Some j0)"
    and lt: "getpath j0 [''query'', ''tokens'', ''logintoken''] = Inr lt"
    and r1: "server w (Suc (length (sent w))) = Response sc1 (Some (JObj kvs))"
  shows "(\<forall>blk st code msg.
            map_of kvs ''clientlogin'' = Some (JObj blk) \<longrightarrow> map_of blk ''status'' = Some st \<longrightarrow>
            st \<noteq> JStr ''PASS'' \<longrightarrow> map_of blk ''messagecode'' = Some code \<longrightarrow>
            map_of blk ''message'' = Some msg \<longrightarrow>
              fst (Login_init user pwd api idx period True ck cs cb ua dbg w) =
                Inl (LoginError (Format msg_login_failed_code [code, msg])) \<and>
              length (sent (snd (Login_init user pwd api idx period True ck cs cb ua dbg w))) =
                length (sent w) + 2) \<and>
         (\<forall>eb code info.
            map_of kvs ''clientlogin'' = None \<longrightarrow> map_of kvs ''error'' = Some (JObj eb) \<longrightarrow>
            map_of eb ''code'' = Some code \<longrightarrow> map_of eb ''info'' = Some info \<longrightarrow>
              fst (Login_init user pwd api idx period True ck cs cb ua dbg w) =
                Inl (LoginError (Format msg_login_failed_code [code, info])) \<and>
              length (sent (snd (Login_init user pwd api idx period True ck cs cb ua dbg w))) =
                length (sent w) + 2) \<and>
         (\<forall>blk.
            map_of kvs ''clientlogin'' = Some (JObj blk) \<longrightarrow>
            map_of blk ''status'' = Some (JStr ''PASS'') \<longrightarrow>
            (dbg \<longrightarrow> map_of blk ''username'' \<noteq> None) \<longrightarrow>
              (\<forall>p. fst (Login_init user pwd api idx period True ck cs cb ua dbg w) \<noteq> Inl (LoginError p)) \<and>
              length (sent (snd (Login_init user pwd api idx period True ck cs cb ua dbg w))) =
                length (sent w) + 3 \<and>
              req_method (last (sent (snd (Login_init user pwd api idx period True ck cs cb ua dbg w)))) = GET \<and>
              req_fields (last (sent (snd (Login_init user pwd api idx period True ck cs cb ua dbg w))))
                = params_edit \<and>
              (isl (fst (Login_init user pwd api idx period True ck cs cb ua dbg w)) \<longleftrightarrow>
                 refresh_fails (server w (length (sent w) + 2))))"
proof -
  let ?a = "init_attributes user api idx period ck cs cb ua dbg w"
  let ?R = "Login_init user pwd api idx period True ck cs cb ua dbg w"
  from nk have u: "?R = init_login (fst ?a) user pwd True dbg (snd ?a)"
    by (auto simp add: Login_init_unfold)
  have sa: "sent (snd ?a) = sent w" "server (snd ?a) = server w"
    by (simp_all add: init_attributes_world)
  from r0 r1 sa have r0': "server (snd ?a) (length (sent (snd ?a))) = Response sc0 (Some j0)"
    and r1': "server (snd ?a) (Suc (length (sent (snd ?a)))) = Response sc1 (Some (JObj kvs))"
    by simp_all
  from init_login_clientlogin_ex [OF r0' lt r1', of "fst ?a" user pwd dbg]
  obtain self2 w2 where
    l2: "length (sent w2) = length (sent w) + 2" and s2: "server w2 = server w" and
    R: "?R = (case check_clientlogin (JObj kvs) dbg w2 of
                (Inl e, w3) \<Rightarrow> (Inl e, w3)
              | (Inr _, w3) \<Rightarrow>
                  (case generate_edit_credentials self2 w3 of
                     (Inl e, self3, w4) \<Rightarrow> (Inl e, w4)
                   | (Inr _, self3, w4) \<Rightarrow> (Inr self3, w4)))"
    unfolding u sa by blast
  let ?c = "check_clientlogin (JObj kvs) dbg w2"
  have pc: "sent (snd ?c) = sent w2" "server (snd ?c) = server w2"
    using printed_only_fields [OF check_clientlogin_printed_only [of w2 "JObj kvs" dbg]]
    by simp_all
  have failed: "fst ?R = Inl e \<and> length (sent (snd ?R)) = length (sent w) + 2"
    if "fst ?c = Inl e" for e
  proof -
    from that obtain w3 where c3: "?c = (Inl e, w3)" by (cases ?c) auto
    then have "?R = (Inl e, w3)" by (simp add: R)
    moreover from c3 have "sent w3 = sent w2" using pc by simp
    ultimately show ?thesis using l2 by simp
  qed
  have passed: "(\<forall>p. fst ?R \<noteq> Inl (LoginError p)) \<and>
                length (sent (snd ?R)) = length (sent w) + 3 \<and>
                req_method (last (sent (snd ?R))) = GET \<and>
                req_fields (last (sent (snd ?R))) = params_edit \<and>
                (isl (fst ?R) \<longleftrightarrow> refresh_fails (server w (length (sent w) + 2)))"
    if "fst ?c = Inr ()"
  proof -
    let ?g = "generate_edit_credentials self2 (snd ?c)"
    from that obtain w3 where c3: "?c = (Inr (), w3)" by (cases ?c) auto
    then have w3: "w3 = snd ?c" by simp
    from c3 have Rg: "?R = (case ?g of (Inl e, self3, w4) \<Rightarrow> (Inl e, w4)
                          | (Inr _, self3, w4) \<Rightarrow> (Inr self3, w4))"
      unfolding w3 [symmetric] by (simp add: R)
    have w4: "snd ?R = snd (snd ?g)"
      by (simp add: Rg split: prod.splits sum.splits)
    have i4: "isl (fst ?R) = isl (fst ?g)"
      by (simp add: Rg split: prod.splits sum.splits)
    have e4: "fst ?R \<noteq> Inl (LoginError p)" for p
      using generate_no_login_error [of self2 "snd ?c" p]
      by (auto simp add: Rg split: prod.splits sum.splits)
    have sg: "sent (snd (snd ?g)) = sent w2 @ [token_request self2]"
      by (simp add: generate_world pc)
    have fg: "isl (fst ?g) = refresh_fails (server w (length (sent w) + 2))"
      by (simp add: generate_fails pc s2 l2)
    from e4 w4 i4 sg fg l2 show ?thesis
      by (simp add: token_request_def)
  qed
  show ?thesis
  proof (intro conjI allI impI)
    fix blk st code msg
    assume "map_of kvs ''clientlogin'' = Some (JObj blk)" "map_of blk ''status'' = Some st"
      "st \<noteq> JStr ''PASS''" "map_of blk ''messagecode'' = Some code" "map_of blk ''message'' = Some msg"
    then have "fst ?c = Inl (LoginError (Format msg_login_failed_code [code, msg]))"
      by (rule check_clientlogin_failed)
    from failed [OF this]
    show "fst ?R = Inl (LoginError (Format msg_login_failed_code [code, msg]))"
      and "length (sent (snd ?R)) = length (sent w) + 2"
      by simp_all
  next
    fix eb code info
    assume "map_of kvs ''clientlogin'' = None" "map_of kvs ''error'' = Some (JObj eb)"
      "map_of eb ''code'' = Some code" "map_of eb ''info'' = Some info"
    then have "fst ?c = Inl (LoginError (Format msg_login_failed_code [code, info]))"
      by (rule check_clientlogin_error)
    from failed [OF this]
    show "fst ?R = Inl (LoginError (Format msg_login_failed_code [code, info]))"
      and "length (sent (snd ?R)) = length (sent w) + 2"
      by simp_all
  next
    fix blk
    assume "map_of kvs ''clientlogin'' = Some (JObj blk)" "map_of blk ''status'' = Some (JStr ''PASS'')"
      "dbg \<longrightarrow> map_of blk ''username'' \<noteq> None"
    then have "fst ?c = Inr ()"
      by (rule check_clientlogin_pass)
    note k = passed [OF this]
    from k show "length (sent (snd ?R)) = length (sent w) + 3" by simp
    from k show "req_method (last (sent (snd ?R))) = GET" by simp
    from k show "req_fields (last (sent (snd ?R))) = params_edit" by simp
    from k show "isl (fst ?R) \<longleftrightarrow> refresh_fails (server w (length (sent w) + 2))" by simp
    fix p
    from k show "fst ?R \<noteq> Inl (LoginError p)" by simp
  qed
qed


theorem clientlogin_response_shapes_witness:
  "fst (example_clientlogin_init clientlogin_fail_reply) =
     Inl (LoginError (Format msg_login_failed_code
            [JStr ''wrongpassword'', JStr ''Incorrect username or password entered.''])) \<and>
   length (sent (snd (example_clientlogin_init clientlogin_fail_reply))) = 2 \<and>
   fst (example_clientlogin_init clientlogin_error_reply) =
     Inl (LoginError (Format msg_login_failed_code [JStr ''badpass'', JStr ''Incorrect password''])) \<and>
   length (sent (snd (example_clientlogin_init clientlogin_error_reply))) = 2 \<and>
   \<not> isl (fst (example_clientlogin_init clientlogin_pass_reply)) \<and>
   length (sent (snd (example_clientlogin_init clientlogin_pass_reply))) = 3 \<and>
   req_fields (last (sent (snd (example_clientlogin_init clientlogin_pass_reply)))) = params_edit"
proof -
  have nk: "\<not> (truthy_str None \<and> truthy_str None)" by simp
  have lt: "getpath (JObj [(''query'', JObj [(''tokens'', JObj [(''logintoken'', JStr ''lt+'')])])])
              [''query'', ''tokens'', ''logintoken''] = Inr (JStr ''lt+'')"
    by (simp add: getitem_def)
  have w0: "sent (example_clientlogin_world reply) = []"
    "server (example_clientlogin_world reply) (length (sent (example_clientlogin_world reply))) =
       Response [] (Some (JObj [(''query'', JObj [(''tokens'', JObj [(''logintoken'', JStr ''lt+'')])])]))"
    "server (example_clientlogin_world reply) (Suc (length (sent (example_clientlogin_world reply)))) = reply"
    "\<not> refresh_fails (server (example_clientlogin_world reply)
                        (length (sent (example_clientlogin_world reply)) + 2))"
    for reply
    by (simp_all add: example_clientlogin_world_def example_defs getitem_def)
  note t = clientlogin_response_shapes
    [where ck = None and cs = None and user = "Some ''alice''" and pwd = "Some ''secret''"
       and api = None and idx = None and period = 1800 and cb = "''oob''" and ua = None
       and dbg = False]
  have rf: "server (example_clientlogin_world clientlogin_fail_reply)
              (Suc (length (sent (example_clientlogin_world clientlogin_fail_reply)))) =
            Response []
              (Some (JObj [(''clientlogin'',
                     JObj [(''status'', JStr ''FAIL''), (''messagecode'', JStr ''wrongpassword''),
                           (''message'', JStr ''Incorrect username or password entered.'')])]))"
    using w0(3) [of clientlogin_fail_reply] by (simp add: clientlogin_fail_reply_def)
  note tf = t [where w = "example_clientlogin_world clientlogin_fail_reply", OF nk w0(2) lt rf,
               folded example_clientlogin_init_def]
  have f: "fst (example_clientlogin_init clientlogin_fail_reply) =
             Inl (LoginError (Format msg_login_failed_code
                    [JStr ''wrongpassword'', JStr ''Incorrect username or password entered.'']))"
    "length (sent (snd (example_clientlogin_init clientlogin_fail_reply))) = 2"
    using tf w0(1) [of clientlogin_fail_reply] by simp_all
  have re: "server (example_clientlogin_world clientlogin_error_reply)
              (Suc (length (sent (example_clientlogin_world clientlogin_error_reply)))) =
            Response []
              (Some (JObj [(''error'', JObj [(''code'', JStr ''badpass''),
                                             (''info'', JStr ''Incorrect password'')])]))"
    using w0(3) [of clientlogin_error_reply] by (simp add: clientlogin_error_reply_def)
  note te = t [where w = "example_clientlogin_world clientlogin_error_reply", OF nk w0(2) lt re,
               folded example_clientlogin_init_def]
  have e: "fst (example_clientlogin_init clientlogin_error_reply) =
             Inl (LoginError (Format msg_login_failed_code [JStr ''badpass'', JStr ''Incorrect password'']))"
    "length (sent (snd (example_clientlogin_init clientlogin_error_reply))) = 2"
    using te w0(1) [of clientlogin_error_reply] by simp_all
  have rp: "server (example_clientlogin_world clientlogin_pass_reply)
              (Suc (length (sent (example_clientlogin_world clientlogin_pass_reply)))) =
            Response [(''session'', ''s1'')]
              (Some (JObj [(''clientlogin'', JObj [(''status'', JStr ''PASS''),
                                                   (''username'', JStr ''alice'')])]))"
    using w0(3) [of clientlogin_pass_reply] by (simp add: clientlogin_pass_reply_def)
  note tp = t [where w = "example_clientlogin_world clientlogin_pass_reply", OF nk w0(2) lt rp,
               folded example_clientlogin_init_def]
  have p: "\<not> isl (fst (example_clientlogin_init clientlogin_pass_reply))"
    "length (sent (snd (example_clientlogin_init clientlogin_pass_reply))) = 3"
    "req_fields (last (sent (snd (example_clientlogin_init clientlogin_pass_reply)))) = params_edit"
    using tp w0(1,4) [of clientlogin_pass_reply] by simp_all
  from f e p show ?thesis by simp
qed

end
